theory Spec2Isabelle
  imports Complex_Main "HOL-Library.Sublist"
begin

section \<open>Python values and errors\<close>

text \<open>Every exception the modelled code can raise is a value; \<open>Inl\<close> carries it.\<close>

datatype error = IndexError | TypeError | AttributeError | KeyError | ValueError

type_synonym 'a result = "error + 'a"

definition bind_result :: "'a result \<Rightarrow> ('a \<Rightarrow> 'b result) \<Rightarrow> 'b result" where
  "bind_result m f = (case m of Inl e \<Rightarrow> Inl e | Inr x \<Rightarrow> f x)"

text \<open>Python's \<^verbatim>\<open>str.startswith\<close> and \<^verbatim>\<open>str.endswith\<close>.\<close>

definition startswith :: "string \<Rightarrow> string \<Rightarrow> bool" where
  "startswith s p = (take (length p) s = p)"

definition endswith :: "string \<Rightarrow> string \<Rightarrow> bool" where
  "endswith s p = (length p \<le> length s \<and> drop (length s - length p) s = p)"

text \<open>
  Python's \<^verbatim>\<open>round\<close> on a float: to the nearest integer, a tie to the even one. The
  reals stand for the doubles of the source.
\<close>

definition py_round :: "real \<Rightarrow> int" where
  "py_round x =
     (let f = \<lfloor>x\<rfloor>; d = x - of_int f
      in if d < 1 / 2 then f else if 1 / 2 < d then f + 1 else if even f then f else f + 1)"

text \<open>Python list indexing, \<^verbatim>\<open>xs[i]\<close>: a negative index counts from the end.\<close>

definition py_index :: "'a list \<Rightarrow> int \<Rightarrow> nat result" where
  "py_index xs i =
     (if 0 \<le> i \<and> i < int (length xs) then Inr (nat i)
      else if i < 0 \<and> - int (length xs) \<le> i then Inr (nat (int (length xs) + i))
      else Inl IndexError)"

text \<open>\<^verbatim>\<open>del xs[i]\<close> and the list left by \<^verbatim>\<open>xs.pop(i)\<close>, at a position in range.\<close>

definition delete_at :: "'a list \<Rightarrow> nat \<Rightarrow> 'a list" where
  "delete_at xs i = take i xs @ drop (Suc i) xs"

text \<open>An update of the last element of a list, \<^verbatim>\<open>xs[-1][key] = v\<close>.\<close>

definition update_last :: "('a \<Rightarrow> 'a) \<Rightarrow> 'a list \<Rightarrow> 'a list" where
  "update_last f xs = (case rev xs of [] \<Rightarrow> [] | x # front \<Rightarrow> rev front @ [f x])"

text \<open>
  A dictionary is an association list in insertion order: \<^verbatim>\<open>d.get(k)\<close> is \<open>map_of d k\<close>,
  \<^verbatim>\<open>d[k] = v\<close> keeps the position of a key that is present and appends a new one.
\<close>

fun dict_set :: "'k \<Rightarrow> 'v \<Rightarrow> ('k \<times> 'v) list \<Rightarrow> ('k \<times> 'v) list" where
  "dict_set k v [] = [(k, v)]"
| "dict_set k v ((k', v') # d) = (if k' = k then (k, v) # d else (k', v') # dict_set k v d)"

definition dict_get_list :: "('k \<times> 'v list) list \<Rightarrow> 'k \<Rightarrow> 'v list" where
  \<comment> \<open>\<^verbatim>\<open>d.get(k, [])\<close>\<close>
  "dict_get_list d k = (case map_of d k of None \<Rightarrow> [] | Some vs \<Rightarrow> vs)"

section \<open>Constants and collaborators outside the sources\<close>

text \<open>A weighted set of names: the \<open>(value, weight)\<close> pairs of a dictionary in its order.\<close>

type_synonym weights = "(string \<times> real) list"

text \<open>
  The random source: the successive results of \<^verbatim>\<open>random.random()\<close>, of
  \<^verbatim>\<open>random.getrandbits(128)\<close> and of the index drawn by \<^verbatim>\<open>random.choice\<close>, each with
  the number of results consumed so far.
\<close>

record rnd =
  random_results :: "nat \<Rightarrow> real"
  random_calls :: nat
  getrandbits_results :: "nat \<Rightarrow> nat"
  getrandbits_calls :: nat
  choice_results :: "nat \<Rightarrow> nat"
  choice_calls :: nat

definition random :: "rnd \<Rightarrow> real \<times> rnd" where
  "random g = (random_results g (random_calls g), g\<lparr>random_calls := Suc (random_calls g)\<rparr>)"

definition getrandbits :: "rnd \<Rightarrow> nat \<times> rnd" where
  "getrandbits g =
     (getrandbits_results g (getrandbits_calls g), g\<lparr>getrandbits_calls := Suc (getrandbits_calls g)\<rparr>)"

definition choice :: "'a list \<Rightarrow> rnd \<Rightarrow> ('a \<times> rnd) result" where
  "choice xs g =
     (if xs = [] then Inl IndexError
      else Inr (xs ! (choice_results g (choice_calls g) mod length xs),
                g\<lparr>choice_calls := Suc (choice_calls g)\<rparr>))"

text \<open>The literal generators of \<^verbatim>\<open>RandomGenerator\<close> that \<^verbatim>\<open>monkey.py\<close> installs.\<close>

datatype generator =
  Edm_string | Edm_datetime | Edm_boolean | Edm_byte | Edm_sbyte | Edm_single | Edm_guid
  | Edm_decimal | Edm_datetimeoffset | Edm_time | Edm_binary | Edm_int16 | Edm_int32 | Edm_int64
  | Lambda_None

text \<open>The bound method a \<^verbatim>\<open>FilterQuery\<close> installs as \<^verbatim>\<open>generate_remaining_proprties\<close>.\<close>

datatype remaining_generator = Generate_interval_values | Generate_multi_values | Lambda_x_y_None

text \<open>
  A property of the metadata model, with the attributes the code adds to it at run time
  (\<open>None\<close> while an attribute is not set).
\<close>

record proprty =
  p_name :: string
  typ_name :: string
  max_length :: "nat option"
  filterable :: bool
  sortable :: bool
  required_in_filter :: bool
  filter_restriction :: "string option"
  max_string_length :: "nat option"
  p_generate :: "generator option"
  p_operators :: "weights option"
  replaceable :: "bool option"
  generate_remaining_proprties :: "remaining_generator option"

text \<open>
  The module \<^verbatim>\<open>odfuzz.constants\<close>, the client of \<^verbatim>\<open>odfuzz.config\<close> and the literal
  generators of \<^verbatim>\<open>odfuzz.generators\<close> are not part of the sources: they are parameters.
  So is the string rendering done inside the \<^verbatim>\<open>func_*\<close> methods, \<open>func_call\<close>: the
  grammar only uses what such a call returns, for any rendering.
\<close>

text \<open>
  What a call of one \<^verbatim>\<open>func_*\<close> method of a function family returns (the class
  \<^verbatim>\<open>FilterFunction\<close> with its \<^verbatim>\<open>FunctionsReturnType\<close>): the properties and parameters
  used, the rendered call, and the operators and literal generator of the return type.
\<close>

record filter_function =
  ff_proprties :: "string list"
  ff_params :: "string list option"
  generated_string :: string
  ff_operators :: weights
  ff_name :: string
  ff_return_type :: string
  ff_generator :: generator
  ff_proprty :: proprty

text \<open>The three function families, the keys of \<^verbatim>\<open>FilterFunctionsGroup._group\<close>.\<close>

datatype family = String | Date | Math

record constants =
  RECURSION_LIMIT :: int
  INT_MAX :: int
  SINGLE_VALUE_PROB :: real
  FUNCTION_WEIGHT :: real
  MAX_MULTI_VALUES :: int
  LOGICAL_OPERATORS :: weights
  BOOLEAN_OPERATORS :: weights
  EXPRESSION_OPERATORS :: weights
  GLOBAL_ENTITY :: string
  GLOBAL_PROPRTY :: string
  GLOBAL_FUNCTION :: string
  NAV_PROPRTY :: string
  Config_client :: string
  RandomGenerator :: "generator \<Rightarrow> proprty \<Rightarrow> rnd \<Rightarrow> string \<times> rnd"
  func_call :: "family \<Rightarrow> string \<Rightarrow> proprty list \<Rightarrow> rnd \<Rightarrow> (filter_function \<times> rnd) result"

section \<open>Patching of the property objects (\<^verbatim>\<open>monkey.py\<close>)\<close>

definition max_string_length_of :: "nat option \<Rightarrow> nat" where
  \<comment> \<open>\<^verbatim>\<open>max_string_length(max_length)\<close>: \<^verbatim>\<open>None\<close> and \<open>0\<close> are falsy\<close>
  "max_string_length_of m = (case m of None \<Rightarrow> 100 | Some n \<Rightarrow> if n = 0 then 100 else n)"

definition patch_proprty_max_length :: "proprty \<Rightarrow> proprty" where
  "patch_proprty_max_length proprty =
     (if typ_name proprty = ''Edm.String''
      then proprty\<lparr>max_string_length := Some (max_string_length_of (max_length proprty))\<rparr>
      else proprty)"

definition patch_proprty_generator :: "proprty \<Rightarrow> proprty" where
  "patch_proprty_generator proprty =
     (let proprty_type = typ_name proprty
      in proprty\<lparr>p_generate := Some
        (if proprty_type = ''Edm.String'' then Edm_string
         else if proprty_type = ''Edm.DateTime'' then Edm_datetime
         else if proprty_type = ''Edm.Boolean'' then Edm_boolean
         else if proprty_type = ''Edm.Byte'' then Edm_byte
         else if proprty_type = ''Edm.SByte'' then Edm_sbyte
         else if proprty_type = ''Edm.Single'' then Edm_single
         else if proprty_type = ''Edm.Guid'' then Edm_guid
         else if proprty_type = ''Edm.Decimal'' then Edm_decimal
         else if proprty_type = ''Edm.DateTimeOffset'' then Edm_datetimeoffset
         else if proprty_type = ''Edm.Time'' then Edm_time
         else if proprty_type = ''Edm.Binary'' then Edm_binary
         else if startswith proprty_type ''Edm.Int'' then
           (if endswith proprty_type ''16'' then Edm_int16
            else if endswith proprty_type ''32'' then Edm_int32
            else if endswith proprty_type ''64'' then Edm_int64
            else Lambda_None)
         else Lambda_None)\<rparr>)"

definition patch_proprty_operator :: "constants \<Rightarrow> proprty \<Rightarrow> proprty" where
  "patch_proprty_operator c proprty =
     (if typ_name proprty = ''Edm.Boolean''
      then proprty\<lparr>p_operators := Some (BOOLEAN_OPERATORS c)\<rparr>
      else proprty\<lparr>p_operators := Some (EXPRESSION_OPERATORS c)\<rparr>)"

definition patch_proprty :: "constants \<Rightarrow> proprty \<Rightarrow> proprty" where
  "patch_proprty c proprty =
     patch_proprty_operator c (patch_proprty_generator (patch_proprty_max_length proprty))"

text \<open>
  A call \<^verbatim>\<open>proprty.generate()\<close>: the attribute is missing on a property that was never
  patched; the fallback \<^verbatim>\<open>lambda: None\<close> returns \<^verbatim>\<open>None\<close> and draws nothing.
\<close>

definition call_generate :: "constants \<Rightarrow> proprty \<Rightarrow> rnd \<Rightarrow> (string option \<times> rnd) result" where
  "call_generate c proprty g =
     (case p_generate proprty of
        None \<Rightarrow> Inl AttributeError
      | Some Lambda_None \<Rightarrow> Inr (None, g)
      | Some gen \<Rightarrow> (let (literal, g') = RandomGenerator c gen proprty g in Inr (Some literal, g')))"

section \<open>The weighted random sampling primitive\<close>

text \<open>
  \<^verbatim>\<open>weighted_random(items)\<close> draws one number and scans the \<open>(value, weight)\<close> pairs. The
  draw is the second argument here. The weights are of any type with a comparison and a
  subtraction, so the double-precision subtraction of the source is one instance.
\<close>

fun weighted_random :: "('a \<times> 'w::{ord,minus}) list \<Rightarrow> 'w \<Rightarrow> 'a option" where
  "weighted_random [] random_number = None"
| "weighted_random ((val, weight) # items) random_number =
     (if random_number < weight then Some val
      else weighted_random items (random_number - weight))"

text \<open>
  The specification's reading of it: the draw that remains in front of position \<open>i\<close> is
  the draw with the weights of the \<open>i\<close> preceding pairs subtracted, one after the other; a
  position is a hit when that remainder is strictly below its weight; the result is what
  the first hit in scan order holds, and no match when there is none.
\<close>

definition remaining_draw :: "('a \<times> 'w::{ord,minus}) list \<Rightarrow> 'w \<Rightarrow> nat \<Rightarrow> 'w" where
  "remaining_draw items r i = foldl (-) r (map snd (take i items))"

definition is_hit :: "('a \<times> 'w::{ord,minus}) list \<Rightarrow> 'w \<Rightarrow> nat \<Rightarrow> bool" where
  "is_hit items r i = (remaining_draw items r i < snd (items ! i))"

definition weighted_random_spec :: "('a \<times> 'w::{ord,minus}) list \<Rightarrow> 'w \<Rightarrow> 'a option" where
  "weighted_random_spec items r =
     map_option (\<lambda>i. fst (items ! i)) (find (is_hit items r) [0..<length items])"

section \<open>The property selector\<close>

text \<open>
  A \<^verbatim>\<open>ProprtiesGroup\<close> holds a reference to a list, not a copy: the groups of a selector
  share the selector's own two lists, or hold a list of their own that is created empty.
\<close>

datatype proprties_list = Filterable_proprties | Required_proprties | Empty_list

datatype proprties_group = NonRequiredProprties proprties_list | RequiredProprties proprties_list

record proprties_selector =
  sel_filterable_proprties :: "proprty list"
  sel_required_proprties :: "proprty list"
  has_remaining_proprties :: bool
  sel_proprties :: "(proprties_group \<times> real) list"
  times_called_has_remaining :: nat

definition init_tuples :: "proprty list \<Rightarrow> proprty list \<Rightarrow> (proprties_group \<times> real) list" where
  "init_tuples filterable_list required_list =
     (let non_required_proprties = filter (\<lambda>p. p \<notin> set required_list) filterable_list
      in if non_required_proprties \<noteq> [] then
           (if required_list \<noteq> []
            then [(NonRequiredProprties Filterable_proprties, 1 / 100),
                  (RequiredProprties Required_proprties, 99 / 100)]
            else [(NonRequiredProprties Filterable_proprties, 1),
                  (RequiredProprties Empty_list, 0)])
         else [(NonRequiredProprties Empty_list, 0),
               (RequiredProprties Required_proprties, 1)])"

definition ProprtiesSelector :: "proprty list \<Rightarrow> proprty list \<Rightarrow> proprties_selector" where
  "ProprtiesSelector filterable_list required_list =
     \<lparr>sel_filterable_proprties = filterable_list,
      sel_required_proprties = required_list,
      has_remaining_proprties = (required_list \<noteq> []),
      sel_proprties = init_tuples filterable_list required_list,
      times_called_has_remaining = 0\<rparr>"

definition has_remaining :: "proprties_selector \<Rightarrow> bool \<times> proprties_selector" where
  "has_remaining s =
     (if length (sel_required_proprties s) \<le> times_called_has_remaining s then (False, s)
      else (has_remaining_proprties s,
            s\<lparr>times_called_has_remaining := times_called_has_remaining s + 1\<rparr>))"

definition has_filterable :: "proprties_selector \<Rightarrow> bool" where
  "has_filterable s = (sel_filterable_proprties s \<noteq> [])"

definition group_proprties :: "proprties_selector \<Rightarrow> proprties_list \<Rightarrow> proprty list" where
  "group_proprties s l =
     (case l of Filterable_proprties \<Rightarrow> sel_filterable_proprties s
      | Required_proprties \<Rightarrow> sel_required_proprties s
      | Empty_list \<Rightarrow> [])"

definition set_group_proprties ::
  "proprties_list \<Rightarrow> proprty list \<Rightarrow> proprties_selector \<Rightarrow> proprties_selector" where
  "set_group_proprties l xs s =
     (case l of Filterable_proprties \<Rightarrow> s\<lparr>sel_filterable_proprties := xs\<rparr>
      | Required_proprties \<Rightarrow> s\<lparr>sel_required_proprties := xs\<rparr>
      | Empty_list \<Rightarrow> s)"

text \<open>
  \<^verbatim>\<open>get_proprty\<close> of the two groups: the required group pops the property it returns, the
  other group deletes it only when its filter restriction is \<^verbatim>\<open>single-value\<close>.
\<close>

fun get_proprty ::
  "proprties_group \<Rightarrow> proprties_selector \<Rightarrow> rnd \<Rightarrow> (proprty \<times> proprties_selector \<times> rnd) result" where
  "get_proprty (RequiredProprties l) s g =
     (let (r, g') = random g;
          xs = group_proprties s l;
          random_index = py_round (r * (of_int (int (length xs) - 1)))
      in case py_index xs random_index of
           Inl e \<Rightarrow> Inl e
         | Inr i \<Rightarrow> Inr (xs ! i, set_group_proprties l (delete_at xs i) s, g'))"
| "get_proprty (NonRequiredProprties l) s g =
     (let (r, g') = random g;
          xs = group_proprties s l;
          random_index = py_round (r * (of_int (int (length xs) - 1)))
      in case py_index xs random_index of
           Inl e \<Rightarrow> Inl e
         | Inr i \<Rightarrow>
             Inr (xs ! i,
                  if filter_restriction (xs ! i) = Some ''single-value''
                  then set_group_proprties l (delete_at xs i) s else s,
                  g'))"

definition update_remaining_proprties :: "proprties_selector \<Rightarrow> proprties_selector result" where
  "update_remaining_proprties s =
     (if has_remaining_proprties s then
        (case sel_proprties s of
           non_required_tuple # (required_group, w) # rest \<Rightarrow>
             (case required_group of
                RequiredProprties l \<Rightarrow>
                  if group_proprties s l = []
                  then Inr (s\<lparr>has_remaining_proprties := False,
                              sel_proprties := (NonRequiredProprties Filterable_proprties, 1) # rest\<rparr>)
                  else Inr s
              | NonRequiredProprties l \<Rightarrow>
                  if group_proprties s l = []
                  then Inr (s\<lparr>has_remaining_proprties := False,
                              sel_proprties := (NonRequiredProprties Filterable_proprties, 1) # rest\<rparr>)
                  else Inr s)
         | _ \<Rightarrow> Inl IndexError)
      else Inr s)"

definition get_random_proprty ::
  "proprties_selector \<Rightarrow> rnd \<Rightarrow> (proprty \<times> proprties_selector \<times> rnd) result" where
  "get_random_proprty s g =
     (let (r, g1) = random g
      in case weighted_random (sel_proprties s) r of
           None \<Rightarrow> Inl AttributeError
         | Some proprties_group \<Rightarrow>
             bind_result (get_proprty proprties_group s g1) (\<lambda>(proprty, s1, g2).
             bind_result (update_remaining_proprties s1) (\<lambda>s2.
             Inr (proprty, s2, g2))))"

section \<open>The function families\<close>

text \<open>
  The \<^verbatim>\<open>func_*\<close> methods are attributes of the three classes, shared by every instance of
  a class. \<^verbatim>\<open>get_methods_dict\<close> lists them by name; \<^verbatim>\<open>delattr\<close> removes one from the class.
\<close>

record function_classes =
  StringFilterFunctions :: "string list"
  DateFilterFunctions :: "string list"
  MathFilterFunctions :: "string list"

definition loaded_classes :: function_classes where
  "loaded_classes =
     \<lparr>StringFilterFunctions =
        [''func_concat'', ''func_endswith'', ''func_indexof'', ''func_length'', ''func_replace'',
         ''func_startswith'', ''func_substring'', ''func_substringof'', ''func_tolower'',
         ''func_toupper'', ''func_trim''],
      DateFilterFunctions =
        [''func_day'', ''func_hour'', ''func_minute'', ''func_month'', ''func_second'',
         ''func_year''],
      MathFilterFunctions = [''func_ceiling'', ''func_floor'', ''func_round'']\<rparr>"

definition get_methods_dict :: "function_classes \<Rightarrow> family \<Rightarrow> string list" where
  "get_methods_dict classes fam =
     filter (\<lambda>m. startswith m ''func_'')
       (case fam of String \<Rightarrow> StringFilterFunctions classes
        | Date \<Rightarrow> DateFilterFunctions classes
        | Math \<Rightarrow> MathFilterFunctions classes)"

definition delattr :: "family \<Rightarrow> string \<Rightarrow> function_classes \<Rightarrow> function_classes result" where
  "delattr fam method_name classes =
     (case fam of
        String \<Rightarrow>
          if method_name \<in> set (StringFilterFunctions classes)
          then Inr (classes\<lparr>StringFilterFunctions := removeAll method_name (StringFilterFunctions classes)\<rparr>)
          else Inl AttributeError
      | Date \<Rightarrow>
          if method_name \<in> set (DateFilterFunctions classes)
          then Inr (classes\<lparr>DateFilterFunctions := removeAll method_name (DateFilterFunctions classes)\<rparr>)
          else Inl AttributeError
      | Math \<Rightarrow>
          if method_name \<in> set (MathFilterFunctions classes)
          then Inr (classes\<lparr>MathFilterFunctions := removeAll method_name (MathFilterFunctions classes)\<rparr>)
          else Inl AttributeError)"

text \<open>
  A \<^verbatim>\<open>FilterFunctionsGroup\<close>: the dictionary from a family to the properties of its
  wrapper instance, in insertion order.
\<close>

type_synonym functions_group = "(family \<times> proprty list) list"

definition truthy :: "string option \<Rightarrow> bool" where
  \<comment> \<open>the truth value of an attribute that is \<^verbatim>\<open>None\<close> or a string\<close>
  "truthy v = (case v of None \<Rightarrow> False | Some s \<Rightarrow> s \<noteq> [])"

definition add_proprty :: "family \<Rightarrow> proprty \<Rightarrow> functions_group \<Rightarrow> functions_group" where
  \<comment> \<open>\<^verbatim>\<open>self._group.setdefault(key, wrapper).add_proprty(proprty)\<close>\<close>
  "add_proprty fam proprty grp =
     dict_set fam ((case map_of grp fam of None \<Rightarrow> [] | Some ps \<Rightarrow> ps) @ [proprty]) grp"

fun init_functions_group :: "proprty list \<Rightarrow> functions_group \<Rightarrow> functions_group" where
  "init_functions_group [] grp = grp"
| "init_functions_group (proprty # filterable_proprties) grp =
     init_functions_group filterable_proprties
       (if truthy (filter_restriction proprty) then grp
        else if typ_name proprty = ''Edm.String'' then add_proprty String proprty grp
        else if typ_name proprty = ''Edm.DateTime'' then add_proprty Date proprty grp
        else if typ_name proprty = ''Edm.Decimal'' then add_proprty Math proprty grp
        else grp)"

text \<open>
  The inner loop of \<^verbatim>\<open>_delete_restricted_functions\<close> tests the names against
  \<open>methods_dict\<close>, which was read before the loop.
\<close>

fun delete_restricted_of_class ::
  "family \<Rightarrow> string list \<Rightarrow> string list \<Rightarrow> function_classes \<Rightarrow> function_classes result" where
  "delete_restricted_of_class fam methods_dict [] classes = Inr classes"
| "delete_restricted_of_class fam methods_dict (restricted_function # restricted_functions) classes =
     (let method_name = ''func_'' @ restricted_function
      in if method_name \<in> set methods_dict
         then bind_result (delattr fam method_name classes)
                (delete_restricted_of_class fam methods_dict restricted_functions)
         else delete_restricted_of_class fam methods_dict restricted_functions classes)"

fun delete_restricted_functions ::
  "string list \<Rightarrow> functions_group \<Rightarrow> functions_group \<Rightarrow> function_classes
     \<Rightarrow> (functions_group \<times> function_classes) result" where
  "delete_restricted_functions restricted_functions [] grp classes = Inr (grp, classes)"
| "delete_restricted_functions restricted_functions ((key, functions_wrapper) # group_items) grp classes =
     bind_result
       (delete_restricted_of_class key (get_methods_dict classes key) restricted_functions classes)
       (\<lambda>classes'.
          delete_restricted_functions restricted_functions group_items
            (if get_methods_dict classes' key = [] then filter (\<lambda>(k, w). k \<noteq> key) grp else grp)
            classes')"

text \<open>A restriction of one query option: what to exclude and what to include.\<close>

datatype int_text = Int_text int | Not_int_text

record query_restrictions =
  restr_exclude :: "(string \<times> string list) list"
  restr_include :: "(string \<times> int_text list) list"

definition FilterFunctionsGroup ::
  "constants \<Rightarrow> proprty list \<Rightarrow> query_restrictions option \<Rightarrow> function_classes
     \<Rightarrow> (functions_group \<times> function_classes) result" where
  "FilterFunctionsGroup c filterable_proprties restrictions classes =
     (let grp = init_functions_group filterable_proprties []
      in case restrictions of
           None \<Rightarrow> Inr (grp, classes)
         | Some restr \<Rightarrow>
             if grp \<noteq> [] \<and> restr_exclude restr \<noteq> []
                \<and> dict_get_list (restr_exclude restr) (GLOBAL_FUNCTION c) \<noteq> []
             then delete_restricted_functions (dict_get_list (restr_exclude restr) (GLOBAL_FUNCTION c))
                    grp grp classes
             else Inr (grp, classes))"

section \<open>The filter option graph\<close>

text \<open>
  The three kinds of dictionaries of a \<^verbatim>\<open>FilterOption\<close>. A key that is not set is \<open>None\<close>.
  An id is the 128-bit number its UUID string is rendered from.
\<close>

record part =
  part_id :: nat
  part_name :: "string option"
  part_operator :: "string option"
  part_operand :: "string option"
  part_left_id :: "nat option"
  part_right_id :: "nat option"
  part_replaceable :: "bool option"
  part_proprties :: "string list option"
  part_params :: "string list option"
  part_func :: "string option"
  part_return_type :: "string option"

record logical =
  logical_id :: nat
  logical_name :: "string option"
  logical_left_id :: "nat option"
  logical_right_id :: "nat option"
  logical_group_id :: "nat option"

record group =
  group_id :: nat
  group_logicals :: "nat list"
  group_left_id :: "nat option"
  group_right_id :: "nat option"

record filter_option =
  fo_logicals :: "logical list"
  fo_parts :: "part list"
  fo_groups :: "group list"
  fo_option_string :: string

definition new_part :: "nat \<Rightarrow> part" where
  "new_part i =
     \<lparr>part_id = i, part_name = None, part_operator = None, part_operand = None,
      part_left_id = None, part_right_id = None, part_replaceable = None,
      part_proprties = None, part_params = None, part_func = None, part_return_type = None\<rparr>"

definition new_logical :: "nat \<Rightarrow> logical" where
  "new_logical i =
     \<lparr>logical_id = i, logical_name = None, logical_left_id = None, logical_right_id = None,
      logical_group_id = None\<rparr>"

definition new_group :: "nat \<Rightarrow> group" where
  "new_group i = \<lparr>group_id = i, group_logicals = [], group_left_id = None, group_right_id = None\<rparr>"

section \<open>The filter query\<close>

datatype leaf_function = Generate_proprty | Generate_function

text \<open>
  A \<^verbatim>\<open>FilterQuery\<close> object. The \<^verbatim>\<open>FilterOption\<close> under construction (\<open>logicals\<close>,
  \<open>parts\<close>, \<open>groups\<close>) is written into the record field by field. The stack of groups
  holds references to dictionaries of \<open>groups\<close>: a reference is a position in that list,
  which only grows while an expression is generated. The two pieces of module state the
  object works on travel with it: the random source and the classes of the function
  families.
\<close>

record filter_query =
  functions_group :: functions_group
  noterm_function :: leaf_function
  recursion_depth :: int
  finalizing_groups :: nat
  right_part :: bool
  logicals :: "logical list"
  parts :: "part list"
  groups :: "group list"
  groups_stack :: "nat list"
  option_string :: string
  filterable_proprties :: "proprty list"
  draft_proprty :: "proprty option"
  proprties :: proprties_selector
  required_proprties :: "proprty list"
  rnd :: rnd
  classes :: function_classes

definition next_random :: "filter_query \<Rightarrow> real \<times> filter_query" where
  "next_random q = (let (r, g) = random (rnd q) in (r, q\<lparr>rnd := g\<rparr>))"

definition proprties_has_remaining :: "filter_query \<Rightarrow> bool \<times> filter_query" where
  "proprties_has_remaining q = (let (b, s) = has_remaining (proprties q) in (b, q\<lparr>proprties := s\<rparr>))"

definition add_logical :: "filter_query \<Rightarrow> filter_query" where
  "add_logical q =
     (let (i, g) = getrandbits (rnd q) in q\<lparr>logicals := logicals q @ [new_logical i], rnd := g\<rparr>)"

definition add_part :: "filter_query \<Rightarrow> filter_query" where
  "add_part q = (let (i, g) = getrandbits (rnd q) in q\<lparr>parts := parts q @ [new_part i], rnd := g\<rparr>)"

definition add_group :: "filter_query \<Rightarrow> filter_query" where
  "add_group q = (let (i, g) = getrandbits (rnd q) in q\<lparr>groups := groups q @ [new_group i], rnd := g\<rparr>)"

definition stack_top :: "nat list \<Rightarrow> nat option" where
  "stack_top st = (if st = [] then None else Some (last st))"

definition stack_pop :: "nat \<Rightarrow> nat list \<Rightarrow> nat option \<times> nat list" where
  \<comment> \<open>\<^verbatim>\<open>Stack.pop(n)\<close>: the element popped last, \<^verbatim>\<open>None\<close> when the stack ran empty before\<close>
  "stack_pop elements_to_pop st =
     (if elements_to_pop = 0 \<or> length st < elements_to_pop then None
      else Some (st ! (length st - elements_to_pop)),
      take (length st - elements_to_pop) st)"

definition update_proprty_part ::
  "string \<Rightarrow> string \<Rightarrow> string \<Rightarrow> bool \<Rightarrow> filter_query \<Rightarrow> filter_query result" where
  "update_proprty_part proprty_name operator operand is_replaceable q =
     (if parts q = [] then Inl IndexError
      else Inr (q\<lparr>parts := update_last
                  (\<lambda>p. p\<lparr>part_name := Some proprty_name, part_operator := Some operator,
                          part_operand := Some operand, part_replaceable := Some is_replaceable\<rparr>)
                  (parts q)\<rparr>))"

definition update_function_part ::
  "filter_function \<Rightarrow> string \<Rightarrow> string \<Rightarrow> filter_query \<Rightarrow> filter_query result" where
  "update_function_part generated_function operator operand q =
     (if parts q = [] then Inl IndexError
      else Inr (q\<lparr>parts := update_last
                  (\<lambda>p. p\<lparr>part_name := Some (generated_string generated_function),
                          part_operator := Some operator, part_operand := Some operand,
                          part_proprties := Some (ff_proprties generated_function),
                          part_params := ff_params generated_function,
                          part_func := Some (ff_name generated_function),
                          part_return_type := Some (ff_return_type generated_function)\<rparr>)
                  (parts q)\<rparr>))"

definition set_right_logical_references :: "filter_query \<Rightarrow> filter_query result" where
  "set_right_logical_references q =
     (if logicals q = [] \<or> parts q = [] then Inl IndexError
      else
        (let last_logical = last (logicals q);
             last_part = last (parts q);
             q1 = q\<lparr>logicals := update_last (\<lambda>l. l\<lparr>logical_right_id := Some (part_id last_part)\<rparr>)
                                  (logicals q),
                    parts := update_last (\<lambda>p. p\<lparr>part_left_id := Some (logical_id last_logical)\<rparr>)
                               (parts q)\<rparr>
         in case stack_top (groups_stack q1) of
              None \<Rightarrow> Inr q1
            | Some last_group \<Rightarrow>
                Inr (q1\<lparr>groups := (groups q1)
                           [last_group := (groups q1 ! last_group)
                              \<lparr>group_logicals := group_logicals (groups q1 ! last_group)
                                                  @ [logical_id last_logical]\<rparr>],
                         logicals := update_last
                           (\<lambda>l. l\<lparr>logical_group_id := Some (group_id (groups q1 ! last_group))\<rparr>)
                           (logicals q1)\<rparr>)))"

definition update_right_logical_references :: "filter_query \<Rightarrow> filter_query result" where
  "update_right_logical_references q =
     (if right_part q then set_right_logical_references (q\<lparr>right_part := False\<rparr>) else Inr q)"

definition update_left_logical_references :: "filter_query \<Rightarrow> filter_query result" where
  \<comment> \<open>the argument \<^verbatim>\<open>last_logical\<close> of the source is the last dictionary of \<open>logicals\<close>\<close>
  "update_left_logical_references q =
     (let q1 = (case stack_top (groups_stack q) of
                  None \<Rightarrow> q
                | Some stacked_group \<Rightarrow>
                    q\<lparr>logicals := update_last
                         (\<lambda>l. l\<lparr>logical_group_id := Some (group_id (groups q ! stacked_group))\<rparr>)
                         (logicals q)\<rparr>)
      in if parts q1 = [] \<or> logicals q1 = [] then Inl IndexError
         else Inr (q1\<lparr>logicals := update_last
                        (\<lambda>l. l\<lparr>logical_left_id := Some (part_id (last (parts q1)))\<rparr>) (logicals q1),
                      parts := update_last
                        (\<lambda>p. p\<lparr>part_right_id := Some (logical_id (last (logicals q1)))\<rparr>) (parts q1)\<rparr>))"

definition update_group_references :: "filter_query \<Rightarrow> filter_query result" where
  \<comment> \<open>the argument \<^verbatim>\<open>last_group\<close> of the source is the last dictionary of \<open>groups\<close>\<close>
  "update_group_references q =
     (if logicals q = [] \<or> groups q = [] then Inl IndexError
      else
        (let last_logical = last (logicals q);
             last_group = last (groups q);
             q1 = q\<lparr>logicals := update_last (\<lambda>l. l\<lparr>logical_right_id := Some (group_id last_group)\<rparr>)
                                  (logicals q),
                    groups := update_last (\<lambda>g. g\<lparr>group_left_id := Some (logical_id last_logical)\<rparr>)
                                (groups q)\<rparr>
         in case stack_top (groups_stack q1) of
              None \<Rightarrow> Inr q1
            | Some stacked_group \<Rightarrow>
                Inr (q1\<lparr>groups := (groups q1)
                           [stacked_group := (groups q1 ! stacked_group)
                              \<lparr>group_logicals := group_logicals (groups q1 ! stacked_group)
                                                  @ [logical_id last_logical]\<rparr>]\<rparr>)))"

text \<open>
  A string concatenation with an operand that may be \<^verbatim>\<open>None\<close> raises \<^verbatim>\<open>TypeError\<close>.
\<close>

definition generate_sap_restricted ::
  "constants \<Rightarrow> proprty \<Rightarrow> string \<Rightarrow> string \<Rightarrow> filter_query \<Rightarrow> filter_query result" where
  "generate_sap_restricted c proprty logical_name' operator q =
     (let q1 = q\<lparr>option_string := option_string q @ '' '' @ logical_name' @ '' ''\<rparr>;
          q2 = add_logical q1;
          q3 = q2\<lparr>logicals := update_last (\<lambda>l. l\<lparr>logical_name := Some logical_name'\<rparr>) (logicals q2)\<rparr>
      in bind_result (update_left_logical_references q3) (\<lambda>q4.
         let q5 = add_part q4
         in bind_result (call_generate c proprty (rnd q5)) (\<lambda>(operand, g).
            case operand of
              None \<Rightarrow> Inl TypeError
            | Some operand' \<Rightarrow>
                update_proprty_part (p_name proprty) operator operand'
                  (case replaceable proprty of None \<Rightarrow> True | Some b \<Rightarrow> b)
                  (q5\<lparr>rnd := g,
                      option_string := option_string q5 @ p_name proprty @ '' '' @ operator
                                       @ '' '' @ operand'\<rparr>))))"

definition generate_next_interval_value ::
  "constants \<Rightarrow> proprty \<Rightarrow> string \<Rightarrow> filter_query \<Rightarrow> filter_query result" where
  "generate_next_interval_value c proprty operator q =
     bind_result (generate_sap_restricted c proprty ''and'' operator q) set_right_logical_references"

definition generate_interval_values ::
  "constants \<Rightarrow> proprty \<Rightarrow> string \<Rightarrow> filter_query \<Rightarrow> filter_query result" where
  "generate_interval_values c proprty used_operator q =
     (if used_operator \<noteq> ''eq''
      then generate_next_interval_value c proprty (if used_operator = ''le'' then ''ge'' else ''le'') q
      else Inr q)"

fun generate_multi_values_loop ::
  "nat \<Rightarrow> constants \<Rightarrow> proprty \<Rightarrow> string \<Rightarrow> filter_query \<Rightarrow> filter_query result" where
  "generate_multi_values_loop 0 c proprty operator q = Inr q"
| "generate_multi_values_loop (Suc n) c proprty operator q =
     bind_result (generate_sap_restricted c proprty ''or'' operator q) (\<lambda>q1.
     bind_result (set_right_logical_references q1)
       (generate_multi_values_loop n c proprty operator))"

definition generate_multi_values ::
  "constants \<Rightarrow> proprty \<Rightarrow> string \<Rightarrow> filter_query \<Rightarrow> filter_query result" where
  "generate_multi_values c proprty operator q =
     (let (r, q1) = next_random q;
          total_values = py_round (r * of_int (MAX_MULTI_VALUES c - 1) + 1)
      in generate_multi_values_loop (nat total_values) c proprty operator q1)"

definition call_generate_remaining_proprties ::
  "constants \<Rightarrow> proprty \<Rightarrow> string \<Rightarrow> filter_query \<Rightarrow> filter_query result" where
  "call_generate_remaining_proprties c proprty operator q =
     (case generate_remaining_proprties proprty of
        None \<Rightarrow> Inl AttributeError
      | Some Generate_interval_values \<Rightarrow> generate_interval_values c proprty operator q
      | Some Generate_multi_values \<Rightarrow> generate_multi_values c proprty operator q
      | Some Lambda_x_y_None \<Rightarrow> Inr q)"

definition generate_proprty :: "constants \<Rightarrow> filter_query \<Rightarrow> filter_query result" where
  "generate_proprty c q =
     bind_result (get_random_proprty (proprties q) (rnd q)) (\<lambda>(proprty, s, g).
     case p_operators proprty of
       None \<Rightarrow> Inl AttributeError
     | Some operators \<Rightarrow>
         (let (r, g1) = random g
          in bind_result (call_generate c proprty g1) (\<lambda>(operand, g2).
             case (weighted_random operators r, operand) of
               (Some operator, Some operand') \<Rightarrow>
                 bind_result
                   (update_proprty_part (p_name proprty) operator operand'
                      (case replaceable proprty of None \<Rightarrow> True | Some b \<Rightarrow> b)
                      (q\<lparr>proprties := s, rnd := g2,
                         option_string := option_string q @ p_name proprty @ '' '' @ operator
                                          @ '' '' @ operand'\<rparr>))
                   (\<lambda>q1. bind_result (update_right_logical_references q1)
                            (call_generate_remaining_proprties c proprty operator))
             | _ \<Rightarrow> Inl TypeError)))"

definition generate_function :: "constants \<Rightarrow> filter_query \<Rightarrow> filter_query result" where
  "generate_function c q =
     bind_result (choice (functions_group q) (rnd q)) (\<lambda>((fam, wrapper_proprties), g).
     bind_result (choice (get_methods_dict (classes q) fam) g) (\<lambda>(function_call, g1).
     bind_result (func_call c fam function_call wrapper_proprties g1) (\<lambda>(generated_function, g2).
     let (r, g3) = random g2;
         (operand, g4) = RandomGenerator c (ff_generator generated_function)
                           (ff_proprty generated_function) g3
     in case weighted_random (ff_operators generated_function) r of
          None \<Rightarrow> Inl TypeError
        | Some operator \<Rightarrow>
            bind_result
              (update_function_part generated_function operator operand
                 (q\<lparr>rnd := g4,
                    option_string := option_string q @ generated_string generated_function
                                     @ '' '' @ operator @ '' '' @ operand\<rparr>))
              update_right_logical_references)))"

definition generate_element :: "constants \<Rightarrow> filter_query \<Rightarrow> filter_query result" where
  "generate_element c q =
     (let (r, q1) = next_random (add_part q)
      in if r < FUNCTION_WEIGHT c
         then (case noterm_function q1 of
                 Generate_proprty \<Rightarrow> generate_proprty c q1
               | Generate_function \<Rightarrow> generate_function c q1)
         else generate_proprty c q1)"

definition noterm_logical :: "constants \<Rightarrow> filter_query \<Rightarrow> filter_query result" where
  "noterm_logical c q =
     (let (r, q1) = next_random q
      in case weighted_random (LOGICAL_OPERATORS c) r of
           None \<Rightarrow> Inl TypeError
         | Some operator \<Rightarrow>
             (let q2 = add_logical (q1\<lparr>option_string := option_string q1 @ '' '' @ operator @ '' ''\<rparr>);
                  q3 = q2\<lparr>logicals := update_last (\<lambda>l. l\<lparr>logical_name := Some operator\<rparr>) (logicals q2)\<rparr>
              in bind_result
                   (if finalizing_groups q3 \<noteq> 0 then
                      (let (popped_group, st) = stack_pop (finalizing_groups q3) (groups_stack q3)
                       in case popped_group of
                            None \<Rightarrow> Inl TypeError
                          | Some popped \<Rightarrow>
                              Inr (q3\<lparr>groups_stack := st, finalizing_groups := 0,
                                      logicals := update_last
                                        (\<lambda>l. l\<lparr>logical_left_id := Some (group_id (groups q3 ! popped))\<rparr>)
                                        (logicals q3),
                                      groups := (groups q3)
                                        [popped := (groups q3 ! popped)
                                           \<lparr>group_right_id := Some (logical_id (last (logicals q3)))\<rparr>]\<rparr>))
                    else update_left_logical_references q3)
                   (\<lambda>q4. Inr (q4\<lparr>right_part := True\<rparr>))))"

text \<open>
  The recursive grammar. The source recurses without a bound of its own, so the model
  counts calls down from a fuel: \<open>None\<close> means that the fuel did not suffice, \<open>Some (Inl e)\<close>
  that the call raised \<open>e\<close>, \<open>Some (Inr q)\<close> that it returned.
\<close>

definition and_then ::
  "'a result option \<Rightarrow> ('a \<Rightarrow> 'b result option) \<Rightarrow> 'b result option" where
  "and_then m f = (case m of None \<Rightarrow> None | Some (Inl e) \<Rightarrow> Some (Inl e) | Some (Inr x) \<Rightarrow> f x)"

fun noterm_expression :: "nat \<Rightarrow> constants \<Rightarrow> filter_query \<Rightarrow> filter_query result option"
  and noterm_parent :: "nat \<Rightarrow> constants \<Rightarrow> filter_query \<Rightarrow> filter_query result option"
  and generate_child :: "nat \<Rightarrow> constants \<Rightarrow> filter_query \<Rightarrow> filter_query result option"
  and generate_child_group :: "nat \<Rightarrow> constants \<Rightarrow> filter_query \<Rightarrow> filter_query result option"
  and noterm_child :: "nat \<Rightarrow> constants \<Rightarrow> filter_query \<Rightarrow> filter_query result option"
  and generate_rest :: "nat \<Rightarrow> constants \<Rightarrow> filter_query \<Rightarrow> filter_query result option"
where
  "noterm_expression 0 c q = None"
| "noterm_expression (Suc n) c q =
     (let (remaining, q1) = proprties_has_remaining (q\<lparr>recursion_depth := recursion_depth q + 1\<rparr>)
      in if remaining then noterm_child n c q1
         else (let (r, q2) = next_random q1
               in if r < 1 / 2 \<or> RECURSION_LIMIT c < recursion_depth q2
                  then Some (generate_element c q2)
                  else noterm_child n c q2))"
| "noterm_parent 0 c q = None"
| "noterm_parent (Suc n) c q =
     (let (remaining, q1) = proprties_has_remaining q
      in if remaining then generate_child n c q1
         else (let (r, q2) = next_random q1
               in if r < 1 / 2 \<or> RECURSION_LIMIT c < recursion_depth q2
                  then noterm_expression n c q2
                  else generate_child n c q2))"
| "generate_child 0 c q = None"
| "generate_child (Suc n) c q =
     (let (r, q1) = next_random q
      in if r < 1 / 2 then noterm_child n c q1
         else (let (remaining, q2) = proprties_has_remaining q1
               in if \<not> remaining then noterm_child n c q2 else generate_child_group n c q2))"
| "generate_child_group 0 c q = None"
| "generate_child_group (Suc n) c q =
     (let q1 = add_group (q\<lparr>option_string := option_string q @ ''(''\<rparr>)
      in and_then (Some (if right_part q1 then update_group_references q1 else Inr q1)) (\<lambda>q2.
         and_then (noterm_child n c (q2\<lparr>groups_stack := groups_stack q2 @ [length (groups q2) - 1]\<rparr>))
           (\<lambda>q3. Some (Inr (q3\<lparr>finalizing_groups := finalizing_groups q3 + 1,
                                option_string := option_string q3 @ '')''\<rparr>)))))"
| "noterm_child 0 c q = None"
| "noterm_child (Suc n) c q = and_then (noterm_parent n c q) (generate_rest n c)"
| "generate_rest 0 c q = None"
| "generate_rest (Suc n) c q =
     (if has_filterable (proprties q)
      then and_then (Some (noterm_logical c q)) (noterm_parent n c)
      else Some (Inr q))"

definition init_variables :: "filter_query \<Rightarrow> filter_query" where
  "init_variables q =
     q\<lparr>recursion_depth := 0, finalizing_groups := 0, right_part := False,
       logicals := [], parts := [], groups := [], groups_stack := [], option_string := [],
       proprties := ProprtiesSelector (filterable_proprties q) (required_proprties q)\<rparr>"

definition generate_string :: "nat \<Rightarrow> constants \<Rightarrow> filter_query \<Rightarrow> filter_query result option" where
  "generate_string fuel c q =
     (if required_proprties q = [] then
        (let (r, q1) = next_random q
         in if r < SINGLE_VALUE_PROB c then Some (generate_proprty c (add_part q1))
            else noterm_expression fuel c q1)
      else noterm_expression fuel c q)"

definition reverse_logicals :: "filter_query \<Rightarrow> filter_query" where
  "reverse_logicals q = q\<lparr>logicals := rev (logicals q)\<rparr>"

definition is_redundant :: "group \<Rightarrow> bool" where
  "is_redundant g = (\<not> (group_logicals g \<noteq> [] \<and> (group_right_id g \<noteq> None \<or> group_left_id g \<noteq> None)))"

definition delete_redundancies :: "filter_query \<Rightarrow> filter_query" where
  "delete_redundancies q =
     (let redundant_groups_id = map group_id (filter is_redundant (groups q))
      in q\<lparr>groups := filter (\<lambda>g. \<not> is_redundant g) (groups q),
           logicals := map (\<lambda>l. case logical_group_id l of
                                   None \<Rightarrow> l
                                 | Some i \<Rightarrow> if i \<in> set redundant_groups_id
                                             then l\<lparr>logical_group_id := None\<rparr> else l)
                         (logicals q)\<rparr>)"

text \<open>
  \<^verbatim>\<open>FilterQuery.generate\<close>: the \<^verbatim>\<open>FilterOption\<close> it returns, with the object (and the
  random source) as the call leaves them.
\<close>

definition generate :: "nat \<Rightarrow> constants \<Rightarrow> filter_query \<Rightarrow> (filter_option \<times> filter_query) result option" where
  "generate fuel c q =
     and_then (generate_string fuel c (init_variables q)) (\<lambda>q1.
       let q2 = delete_redundancies (reverse_logicals q1)
       in Some (Inr (\<lparr>fo_logicals = logicals q2, fo_parts = parts q2, fo_groups = groups q2,
                      fo_option_string = option_string q2\<rparr>, q2)))"

definition generate_returns :: "constants \<Rightarrow> filter_query \<Rightarrow> bool" where
  \<comment> \<open>the call comes back, with a value or with an exception\<close>
  "generate_returns c q = (\<exists>fuel. generate fuel c q \<noteq> None)"

section \<open>Entity sets and restrictions\<close>

text \<open>
  An entity set of the metadata model, as far as the code reads and writes it: the
  dictionary of properties and of navigation properties of its entity type (in order, one
  entry per name), and its flags. \<open>req_filter\<close> is the attribute \<^verbatim>\<open>_req_filter\<close> behind
  \<^verbatim>\<open>requires_filter\<close>. A deep copy of an entity set is the same value.
\<close>

record nav_proprty =
  nav_name :: string
  to_role_nav_proprties :: "string list"

record entity_set =
  es_name :: string
  es_proprties :: "proprty list"
  es_nav_proprties :: "nav_proprty list"
  addressable :: bool
  topable :: bool
  pageable :: bool
  req_filter :: bool

datatype option_name = FILTER | ORDERBY | TOP | SKIP | EXPAND

record restrictions_group =
  option_restrictions :: "(option_name \<times> query_restrictions) list"
  draft_objects :: "(string \<times> string list) list option"

definition restriction :: "restrictions_group \<Rightarrow> option_name \<Rightarrow> query_restrictions result" where
  \<comment> \<open>Modelled from the spec: the class of the restrictions object is not part of the
      sources. It holds one \<open>{exclude, include}\<close> configuration per query option name; a
      name without one raises \<^verbatim>\<open>KeyError\<close>, the exception the caller of
      \<^verbatim>\<open>restriction(DRAFT_OBJECTS)\<close> catches.\<close>
  "restriction r n = (case map_of (option_restrictions r) n of None \<Rightarrow> Inl KeyError | Some qr \<Rightarrow> Inr qr)"

definition set_restriction_exclude ::
  "option_name \<Rightarrow> (string \<times> string list) list \<Rightarrow> restrictions_group option
     \<Rightarrow> restrictions_group option" where
  \<comment> \<open>the \<open>exclude\<close> dictionary of one option, after it was changed in place\<close>
  "set_restriction_exclude n ex r =
     (case r of
        None \<Rightarrow> None
      | Some rg \<Rightarrow>
          Some (rg\<lparr>option_restrictions :=
                     map (\<lambda>(n', qr). if n' = n then (n', qr\<lparr>restr_exclude := ex\<rparr>) else (n', qr))
                       (option_restrictions rg)\<rparr>))"

section \<open>Construction of a filter query\<close>

definition entity_type_proprty :: "entity_set \<Rightarrow> string \<Rightarrow> proprty result" where
  \<comment> \<open>\<^verbatim>\<open>entity_type.proprty(name)\<close>, a dictionary lookup\<close>
  "entity_type_proprty es n =
     (case find (\<lambda>p. p_name p = n) (es_proprties es) of None \<Rightarrow> Inl KeyError | Some p \<Rightarrow> Inr p)"

definition is_required :: "proprty option \<Rightarrow> proprty \<Rightarrow> bool" where
  "is_required draft proprty =
     (required_in_filter proprty \<or> (case draft of None \<Rightarrow> False | Some d \<Rightarrow> p_name proprty = p_name d))"

definition append_required_proprty :: "proprty \<Rightarrow> proprty" where
  "append_required_proprty proprty = proprty\<lparr>replaceable := Some False\<rparr>"

definition set_generator_for_restricted_proprty :: "proprty \<Rightarrow> proprty" where
  "set_generator_for_restricted_proprty proprty =
     proprty\<lparr>generate_remaining_proprties := Some
       (if filter_restriction proprty = Some ''interval'' then Generate_interval_values
        else if filter_restriction proprty = Some ''multi-value'' then Generate_multi_values
        else Lambda_x_y_None)\<rparr>"

definition install_attributes :: "proprty option \<Rightarrow> proprty \<Rightarrow> proprty" where
  \<comment> \<open>what \<^verbatim>\<open>_init_required_proprties\<close> and \<^verbatim>\<open>_set_generators_for_restricted_proprties\<close>
      set on one property object\<close>
  "install_attributes draft proprty =
     set_generator_for_restricted_proprty
       (if is_required draft proprty then append_required_proprty proprty else proprty)"

text \<open>
  \<^verbatim>\<open>FilterQuery.__init__\<close>. The property objects are shared by the entity set, the list of
  filterable properties, the list of required ones and the wrappers of the function
  families, so each of these sees the attributes that the constructor sets on them later.
\<close>

definition FilterQuery ::
  "constants \<Rightarrow> entity_set \<Rightarrow> query_restrictions option \<Rightarrow> string list \<Rightarrow> function_classes
     \<Rightarrow> rnd \<Rightarrow> filter_query result" where
  "FilterQuery c entity restrictions draft_properties cls g =
     bind_result (FilterFunctionsGroup c (es_proprties entity) restrictions cls) (\<lambda>(grp, cls').
     bind_result
       (case draft_properties of
          [] \<Rightarrow> Inr None
        | d # _ \<Rightarrow> bind_result (entity_type_proprty entity d) (\<lambda>p. Inr (Some p)))
       (\<lambda>draft.
          Inr \<lparr>functions_group = map (\<lambda>(fam, ps). (fam, map (install_attributes draft) ps)) grp,
               noterm_function = (if grp = [] then Generate_proprty else Generate_function),
               recursion_depth = 0, finalizing_groups = 0, right_part = False,
               logicals = [], parts = [], groups = [], groups_stack = [], option_string = [],
               filterable_proprties = map (install_attributes draft) (es_proprties entity),
               draft_proprty = map_option (install_attributes draft) draft,
               proprties = ProprtiesSelector [] [],
               required_proprties =
                 filter (is_required draft) (map (install_attributes draft) (es_proprties entity)),
               rnd = g, classes = cls'\<rparr>))"

section \<open>The top and skip queries\<close>

text \<open>
  The dispatcher answers the count request with an exception or with a response; the text
  of a response is what \<^verbatim>\<open>int()\<close> makes of it, an integer or a \<^verbatim>\<open>ValueError\<close>.
\<close>

datatype response = Raises_DispatcherError | Response_text int_text

type_synonym dispatcher = "string \<Rightarrow> response"

record range_query =
  rq_entity_set_name :: string
  max_range_prob :: "(int \<times> real) list"
  depending_data :: int

definition get_total_entities :: "constants \<Rightarrow> string \<Rightarrow> dispatcher \<Rightarrow> int" where
  "get_total_entities c entity_set_name dispatcher_get =
     (case dispatcher_get (entity_set_name @ ''/'' @ ''$count?'' @ ''sap-client='' @ Config_client c) of
        Raises_DispatcherError \<Rightarrow> INT_MAX c
      | Response_text (Int_text n) \<Rightarrow> n
      | Response_text Not_int_text \<Rightarrow> INT_MAX c)"

definition include_max_values :: "query_restrictions option \<Rightarrow> string \<Rightarrow> int_text list" where
  \<comment> \<open>\<^verbatim>\<open>include_restr.get(name)\<close> when there is an include dictionary, else nothing\<close>
  "include_max_values restrictions entity_set_name =
     (case restrictions of None \<Rightarrow> [] | Some r \<Rightarrow> dict_get_list (restr_include r) entity_set_name)"

definition top_set_max_range ::
  "constants \<Rightarrow> query_restrictions option \<Rightarrow> dispatcher \<Rightarrow> range_query \<Rightarrow> range_query result" where
  "top_set_max_range c restrictions dispatcher_get q =
     (let prob = dict_set (INT_MAX c) (1 / 1000) (max_range_prob q)
      in bind_result
           (case include_max_values restrictions (rq_entity_set_name q) of
              [] \<Rightarrow> Inr (get_total_entities c (rq_entity_set_name q) dispatcher_get)
            | Int_text n # _ \<Rightarrow> Inr n
            | Not_int_text # _ \<Rightarrow> Inl ValueError)
           (\<lambda>total_entities.
              Inr (q\<lparr>max_range_prob :=
                       (if 1000 < total_entities then dict_set 1000 (999 / 1000) prob
                        else dict_set total_entities (999 / 1000) prob)\<rparr>)))"

definition TopQuery ::
  "constants \<Rightarrow> entity_set \<Rightarrow> query_restrictions option \<Rightarrow> dispatcher \<Rightarrow> range_query result" where
  "TopQuery c entity restrictions dispatcher_get =
     top_set_max_range c restrictions dispatcher_get
       \<lparr>rq_entity_set_name = es_name entity, max_range_prob = [(INT_MAX c, 1)], depending_data = 0\<rparr>"

definition skip_set_max_range ::
  "constants \<Rightarrow> query_restrictions option \<Rightarrow> range_query \<Rightarrow> range_query result" where
  "skip_set_max_range c restrictions q =
     (let prob = dict_set (INT_MAX c) (1 / 1000) (max_range_prob q)
      in bind_result
           (case include_max_values restrictions (rq_entity_set_name q) of
              [] \<Rightarrow> Inr (INT_MAX c)
            | Int_text n # _ \<Rightarrow> Inr n
            | Not_int_text # _ \<Rightarrow> Inl ValueError)
           (\<lambda>total_entities.
              Inr (q\<lparr>max_range_prob :=
                       (if total_entities = INT_MAX c then dict_set total_entities 1 prob
                        else dict_set total_entities (999 / 1000) prob)\<rparr>)))"

definition SkipQuery ::
  "constants \<Rightarrow> entity_set \<Rightarrow> query_restrictions option \<Rightarrow> range_query result" where
  "SkipQuery c entity restrictions =
     skip_set_max_range c restrictions
       \<lparr>rq_entity_set_name = es_name entity, max_range_prob = [(INT_MAX c, 1)], depending_data = 0\<rparr>"

text \<open>
  \<^verbatim>\<open>generate(depending_data)\<close> of the two queries. The other option's value is read from
  the dictionary \<open>depending_data\<close>; a value that is missing or \<open>0\<close> is falsy. The result is
  the number whose decimal rendering is the option string.
\<close>

definition range_generate ::
  "constants \<Rightarrow> option_name \<Rightarrow> range_query \<Rightarrow> (option_name \<times> int) list \<Rightarrow> rnd
     \<Rightarrow> (int \<times> range_query \<times> rnd) result" where
  "range_generate c other q dep g =
     (let (r, g1) = random g
      in case weighted_random (max_range_prob q) r of
           None \<Rightarrow> Inl TypeError
         | Some selected_value \<Rightarrow>
             (let max_range =
                    (case map_of dep other of
                       None \<Rightarrow> selected_value
                     | Some other_value \<Rightarrow>
                         if other_value \<noteq> 0 \<and> INT_MAX c < other_value + selected_value
                         then INT_MAX c - other_value else selected_value);
                  (r', g2) = random g1;
                  generated_value = py_round (r' * of_int max_range)
              in Inr (generated_value, q\<lparr>depending_data := generated_value\<rparr>, g2)))"

definition top_generate ::
  "constants \<Rightarrow> range_query \<Rightarrow> (option_name \<times> int) list \<Rightarrow> rnd \<Rightarrow> (int \<times> range_query \<times> rnd) result" where
  "top_generate c q dep g = range_generate c SKIP q dep g"

definition skip_generate ::
  "constants \<Rightarrow> range_query \<Rightarrow> (option_name \<times> int) list \<Rightarrow> rnd \<Rightarrow> (int \<times> range_query \<times> rnd) result" where
  "skip_generate c q dep g = range_generate c TOP q dep g"

section \<open>The query group\<close>

text \<open>
  A \<^verbatim>\<open>QueryGroup\<close>. \<open>qg_entity_set\<close> and \<open>qg_restrictions\<close> are the very objects the caller
  supplied: what the constructor writes to them, the caller sees. \<open>qg_classes\<close> is the
  module state of the function classes.
\<close>

record orderby_query =
  oq_proprties :: "string list"

record expand_query =
  navigation_paths :: "string list"

datatype accessible = AddressableEntity | NonAddressableEntity

record query_group =
  qg_entity_set :: entity_set
  qg_restrictions :: "restrictions_group option"
  qg_filter :: "filter_query option"
  qg_orderby :: "orderby_query option"
  qg_expand :: "expand_query option"
  qg_top :: "range_query option"
  qg_skip :: "range_query option"
  query_options_list :: "option_name list"
  required_options :: "option_name list"
  accessible_entity :: "accessible option"
  qg_classes :: function_classes

definition is_not_restricted :: "constants \<Rightarrow> entity_set \<Rightarrow> (string \<times> string list) list \<Rightarrow> bool" where
  "is_not_restricted c es exclude_restr =
     (if exclude_restr = [] then True
      else es_name es \<notin> set (dict_get_list exclude_restr (GLOBAL_ENTITY c)))"

definition get_restrictions ::
  "constants \<Rightarrow> query_group \<Rightarrow> option_name \<Rightarrow> (query_restrictions option \<times> bool) result" where
  "get_restrictions c qg n =
     (case qg_restrictions qg of
        None \<Rightarrow> Inr (None, True)
      | Some r \<Rightarrow>
          bind_result (restriction r n) (\<lambda>query_restr.
          Inr (Some query_restr, is_not_restricted c (qg_entity_set qg) (restr_exclude query_restr))))"

definition get_draft_properties :: "string \<Rightarrow> (string \<times> string list) list option \<Rightarrow> string list" where
  "get_draft_properties entity_set_name draft =
     (case draft of None \<Rightarrow> [] | Some d \<Rightarrow> dict_get_list d entity_set_name)"

text \<open>
  \<^verbatim>\<open>_delete_restricted_proprties\<close> returns the reduced deep copy. The list it reads from
  the exclude dictionary under the entity set's name is the dictionary's own list, so the
  \<^verbatim>\<open>extend\<close> changes the dictionary; a name that is not a key gives a new list. The second
  component is the exclude dictionary as the call leaves it.
\<close>

definition delete_restricted_proprties ::
  "constants \<Rightarrow> entity_set \<Rightarrow> (string \<times> string list) list \<Rightarrow> (proprty \<Rightarrow> bool) \<Rightarrow> string list
     \<Rightarrow> entity_set \<times> (string \<times> string list) list" where
  "delete_restricted_proprties c es exclude_restr attribute draft_proprties =
     (let restr_proprty_list =
            (if exclude_restr \<noteq> []
             then dict_get_list exclude_restr (es_name es) @ dict_get_list exclude_restr (GLOBAL_PROPRTY c)
             else []);
          exclude_restr' =
            (if map_of exclude_restr (es_name es) \<noteq> None
             then dict_set (es_name es) restr_proprty_list exclude_restr else exclude_restr)
      in (es\<lparr>es_proprties :=
               filter (\<lambda>proprty. \<not> ((p_name proprty \<in> set restr_proprty_list \<or> \<not> attribute proprty)
                                    \<and> p_name proprty \<notin> set draft_proprties))
                 (es_proprties es)\<rparr>,
          exclude_restr'))"

definition extended_exclude ::
  "constants \<Rightarrow> string \<Rightarrow> (string \<times> string list) list \<Rightarrow> (string \<times> string list) list" where
  \<comment> \<open>the exclude dictionary as \<^verbatim>\<open>_delete_restricted_proprties\<close> leaves it, for an entity set
      of the given name\<close>
  "extended_exclude c n exclude_restr =
     (if map_of exclude_restr n \<noteq> None
      then dict_set n (dict_get_list exclude_restr n @ dict_get_list exclude_restr (GLOBAL_PROPRTY c))
             exclude_restr
      else exclude_restr)"

definition init_filter_query :: "constants \<Rightarrow> rnd \<Rightarrow> query_group \<Rightarrow> query_group result" where
  "init_filter_query c g qg =
     bind_result (get_restrictions c qg FILTER) (\<lambda>(restr, not_restricted).
       let exclude_restrictions = (case restr of None \<Rightarrow> [] | Some r \<Rightarrow> restr_exclude r);
           draft_properties =
             (case restr of
                None \<Rightarrow> []
              | Some r \<Rightarrow> get_draft_properties (es_name (qg_entity_set qg))
                           (case qg_restrictions qg of None \<Rightarrow> None | Some rg \<Rightarrow> draft_objects rg));
           needs_filter = (case restr of None \<Rightarrow> req_filter (qg_entity_set qg) | Some r \<Rightarrow> True);
           (entity_copy, exclude') =
             delete_restricted_proprties c (qg_entity_set qg) exclude_restrictions filterable
               draft_properties;
           restr' = map_option (\<lambda>r. r\<lparr>restr_exclude := exclude'\<rparr>) restr;
           entity = entity_copy\<lparr>req_filter := needs_filter\<rparr>;
           qg1 = qg\<lparr>qg_entity_set := (qg_entity_set qg)\<lparr>req_filter := needs_filter\<rparr>,
                    qg_restrictions := (case restr of
                                          None \<Rightarrow> qg_restrictions qg
                                        | Some r \<Rightarrow> set_restriction_exclude FILTER exclude'
                                                     (qg_restrictions qg))\<rparr>
       in if not_restricted \<and> es_proprties entity \<noteq> [] \<or> draft_properties \<noteq> [] then
            bind_result (FilterQuery c entity restr' draft_properties (qg_classes qg1) g) (\<lambda>fq.
              Inr (if req_filter entity
                   then qg1\<lparr>qg_filter := Some fq, qg_classes := classes fq,
                            required_options := required_options qg1 @ [FILTER]\<rparr>
                   else qg1\<lparr>qg_filter := Some fq, qg_classes := classes fq,
                            query_options_list := query_options_list qg1 @ [FILTER]\<rparr>))
          else Inr qg1)"

definition init_orderby_query :: "constants \<Rightarrow> query_group \<Rightarrow> query_group result" where
  "init_orderby_query c qg =
     bind_result (get_restrictions c qg ORDERBY) (\<lambda>(restr, not_restricted).
       let exclude_restrictions = (case restr of None \<Rightarrow> [] | Some r \<Rightarrow> restr_exclude r);
           (entity, exclude') =
             delete_restricted_proprties c (qg_entity_set qg) exclude_restrictions sortable [];
           qg1 = qg\<lparr>qg_restrictions := (case restr of
                                          None \<Rightarrow> qg_restrictions qg
                                        | Some r \<Rightarrow> set_restriction_exclude ORDERBY exclude'
                                                     (qg_restrictions qg))\<rparr>
       in if not_restricted \<and> es_proprties entity \<noteq> []
          then Inr (qg1\<lparr>qg_orderby := Some \<lparr>oq_proprties = map p_name (es_proprties entity)\<rparr>,
                        query_options_list := query_options_list qg1 @ [ORDERBY]\<rparr>)
          else Inr qg1)"

definition delete_restricted_nav_proprties ::
  "constants \<Rightarrow> entity_set \<Rightarrow> query_restrictions \<Rightarrow> entity_set" where
  "delete_restricted_nav_proprties c es option_restr =
     (if restr_exclude option_restr \<noteq> [] then
        (let restricted_proprties =
               set (dict_get_list (restr_exclude option_restr) (NAV_PROPRTY c))
               \<union> set (dict_get_list (restr_exclude option_restr) (es_name es))
         in es\<lparr>es_nav_proprties := filter (\<lambda>n. nav_name n \<notin> restricted_proprties) (es_nav_proprties es)\<rparr>)
      else es)"

definition init_possible_paths :: "entity_set \<Rightarrow> string list" where
  "init_possible_paths es =
     remdups (concat (map (\<lambda>n. nav_name n # map (\<lambda>inner. nav_name n @ ''/'' @ inner)
                                                (to_role_nav_proprties n))
                        (es_nav_proprties es)))"

definition init_expand_query :: "constants \<Rightarrow> query_group \<Rightarrow> query_group result" where
  "init_expand_query c qg =
     bind_result (get_restrictions c qg EXPAND) (\<lambda>(restr, not_restricted).
       let entity = (case restr of
                       None \<Rightarrow> qg_entity_set qg
                     | Some r \<Rightarrow> delete_restricted_nav_proprties c (qg_entity_set qg) r)
       in if not_restricted \<and> es_nav_proprties (qg_entity_set qg) \<noteq> []
          then Inr (qg\<lparr>qg_expand := Some \<lparr>navigation_paths = init_possible_paths entity\<rparr>,
                       query_options_list := query_options_list qg @ [EXPAND]\<rparr>)
          else Inr qg)"

definition add_range_option ::
  "option_name \<Rightarrow> query_restrictions option \<Rightarrow> query_group \<Rightarrow> query_group" where
  "add_range_option n restr qg =
     (if include_max_values restr (es_name (qg_entity_set qg)) \<noteq> []
      then qg\<lparr>required_options := required_options qg @ [n]\<rparr>
      else qg\<lparr>query_options_list := query_options_list qg @ [n]\<rparr>)"

definition init_top_query :: "constants \<Rightarrow> dispatcher \<Rightarrow> query_group \<Rightarrow> query_group result" where
  \<comment> \<open>\<^verbatim>\<open>_init_query_type(TOP, 'topable', TopQuery, dispatcher)\<close>\<close>
  "init_top_query c dispatcher_get qg =
     bind_result (get_restrictions c qg TOP) (\<lambda>(restr, not_restricted).
       if topable (qg_entity_set qg) \<and> not_restricted
       then bind_result (TopQuery c (qg_entity_set qg) restr dispatcher_get) (\<lambda>tq.
              Inr (add_range_option TOP restr (qg\<lparr>qg_top := Some tq\<rparr>)))
       else Inr qg)"

definition init_skip_query :: "constants \<Rightarrow> query_group \<Rightarrow> query_group result" where
  \<comment> \<open>\<^verbatim>\<open>_init_query_type(SKIP, 'pageable', SkipQuery, dispatcher)\<close>\<close>
  "init_skip_query c qg =
     bind_result (get_restrictions c qg SKIP) (\<lambda>(restr, not_restricted).
       if pageable (qg_entity_set qg) \<and> not_restricted
       then bind_result (SkipQuery c (qg_entity_set qg) restr) (\<lambda>sq.
              Inr (add_range_option SKIP restr (qg\<lparr>qg_skip := Some sq\<rparr>)))
       else Inr qg)"

definition patch_proprties :: "constants \<Rightarrow> entity_set \<Rightarrow> entity_set" where
  "patch_proprties c es = es\<lparr>es_proprties := map (patch_proprty c) (es_proprties es)\<rparr>"

definition init_accessible_entity_path :: "constants \<Rightarrow> query_group \<Rightarrow> query_group" where
  "init_accessible_entity_path c qg =
     (if addressable (qg_entity_set qg) then qg\<lparr>accessible_entity := Some AddressableEntity\<rparr>
      else qg\<lparr>qg_entity_set := patch_proprties c (qg_entity_set qg),
              accessible_entity := Some NonAddressableEntity\<rparr>)"

definition QueryGroup ::
  "constants \<Rightarrow> entity_set \<Rightarrow> restrictions_group option \<Rightarrow> dispatcher \<Rightarrow> function_classes \<Rightarrow> rnd
     \<Rightarrow> query_group result" where
  "QueryGroup c es restrictions dispatcher_get cls g =
     bind_result
       (init_filter_query c g
          \<lparr>qg_entity_set = es, qg_restrictions = restrictions, qg_filter = None, qg_orderby = None,
           qg_expand = None, qg_top = None, qg_skip = None, query_options_list = [],
           required_options = [], accessible_entity = None, qg_classes = cls\<rparr>)
       (\<lambda>qg1. bind_result (init_orderby_query c qg1)
       (\<lambda>qg2. bind_result (init_expand_query c qg2)
       (\<lambda>qg3. bind_result (init_top_query c dispatcher_get qg3)
       (\<lambda>qg4. bind_result (init_skip_query c qg4)
       (\<lambda>qg5. Inr (init_accessible_entity_path c qg5))))))"

section \<open>The required pool across a stretch of generation\<close>

text \<open>
  How a later state of a filter query relates to an earlier one: the names of the parts
  present before are still there, in place; the required pool of the selector has lost
  elements at most; and each property that was in the pool is still in it or is the name
  of a part.
\<close>

definition pool_accounted :: "filter_query \<Rightarrow> filter_query \<Rightarrow> bool" where
  "pool_accounted q q' \<longleftrightarrow>
     prefix (map part_name (parts q)) (map part_name (parts q'))
     \<and> subseq (sel_required_proprties (proprties q')) (sel_required_proprties (proprties q))
     \<and> (\<forall>p \<in> set (sel_required_proprties (proprties q)).
           p \<in> set (sel_required_proprties (proprties q'))
           \<or> Some (p_name p) \<in> set (map part_name (parts q')))"

section \<open>Concrete inputs\<close>

text \<open>
  Values for the parameters, of the kind the missing modules define, and small metadata
  models, used to run the definitions on concrete inputs.
\<close>

definition example_constants :: constants where
  "example_constants =
     \<lparr>RECURSION_LIMIT = 3, INT_MAX = 2147483647, SINGLE_VALUE_PROB = 1 / 5,
      FUNCTION_WEIGHT = 3 / 10, MAX_MULTI_VALUES = 3,
      LOGICAL_OPERATORS = [(''and'', 1 / 2), (''or'', 1 / 2)],
      BOOLEAN_OPERATORS = [(''eq'', 1 / 2), (''ne'', 1 / 2)],
      EXPRESSION_OPERATORS =
        [(''eq'', 3 / 10), (''ne'', 1 / 10), (''gt'', 1 / 10), (''ge'', 1 / 5), (''lt'', 1 / 10),
         (''le'', 1 / 5)],
      GLOBAL_ENTITY = ''$E_ALL$'', GLOBAL_PROPRTY = ''$P_ALL$'', GLOBAL_FUNCTION = ''$F_ALL$'',
      NAV_PROPRTY = ''$NAV_PROP$'', Config_client = ''500'',
      RandomGenerator = (\<lambda>gen proprty g. (''1'', g)),
      func_call = (\<lambda>fam function_call wrapper_proprties g. Inl AttributeError)\<rparr>"

definition example_rnd :: "(nat \<Rightarrow> real) \<Rightarrow> rnd" where
  \<comment> \<open>a random source whose calls of \<^verbatim>\<open>random()\<close> return the given sequence\<close>
  "example_rnd draws =
     \<lparr>random_results = draws, random_calls = 0, getrandbits_results = (\<lambda>n. n + 1),
      getrandbits_calls = 0, choice_results = (\<lambda>n. 0), choice_calls = 0\<rparr>"

definition example_proprty :: "string \<Rightarrow> string \<Rightarrow> bool \<Rightarrow> string option \<Rightarrow> proprty" where
  \<comment> \<open>a property as the metadata parser delivers it, not yet patched\<close>
  "example_proprty n t required restr =
     \<lparr>p_name = n, typ_name = t, max_length = None, filterable = True, sortable = True,
      required_in_filter = required, filter_restriction = restr, max_string_length = None,
      p_generate = None, p_operators = None, replaceable = None,
      generate_remaining_proprties = None\<rparr>"

definition example_entity_set :: "string \<Rightarrow> proprty list \<Rightarrow> entity_set" where
  \<comment> \<open>an addressable entity set with patched properties, as \<^verbatim>\<open>Builder.build\<close> passes it on\<close>
  "example_entity_set n ps =
     \<lparr>es_name = n, es_proprties = map (patch_proprty example_constants) ps, es_nav_proprties = [],
      addressable = True, topable = True, pageable = True, req_filter = False\<rparr>"

definition count_5000 :: dispatcher where
  "count_5000 url = Response_text (Int_text 5000)"

definition skip_then_top ::
  "constants \<Rightarrow> range_query \<Rightarrow> range_query \<Rightarrow> rnd \<Rightarrow> (int \<times> int) result" where
  \<comment> \<open>one round: a skip value is generated, then a top value with the skip value as
      depending data\<close>
  "skip_then_top c sq tq g =
     bind_result (skip_generate c sq [] g) (\<lambda>(skip_value, sq', g').
     bind_result (top_generate c tq [(SKIP, skip_value)] g') (\<lambda>(top_value, tq', g'').
     Inr (skip_value, top_value)))"

definition constant_draws :: "real \<Rightarrow> nat \<Rightarrow> real" where
  "constant_draws r n = r"

definition listed_draws :: "real list \<Rightarrow> nat \<Rightarrow> real" where
  \<comment> \<open>the listed draws, over and over\<close>
  "listed_draws rs n = rs ! (n mod length rs)"

definition orders_top_query :: range_query where
  "orders_top_query =
     \<lparr>rq_entity_set_name = ''Orders'',
      max_range_prob = [(2147483647, 1 / 1000), (1000, 999 / 1000)], depending_data = 0\<rparr>"

definition orders_skip_query :: range_query where
  "orders_skip_query =
     \<lparr>rq_entity_set_name = ''Orders'', max_range_prob = [(2147483647, 1)], depending_data = 0\<rparr>"

definition dispatcher_down :: dispatcher where
  "dispatcher_down url = Raises_DispatcherError"

definition orders_entity_set :: entity_set where
  "orders_entity_set =
     example_entity_set ''Orders''
       [example_proprty ''Id'' ''Edm.Int32'' False None,
        example_proprty ''Name'' ''Edm.String'' False None,
        example_proprty ''Price'' ''Edm.Decimal'' False None]"

definition no_restriction :: query_restrictions where
  "no_restriction = \<lparr>restr_exclude = [], restr_include = []\<rparr>"

definition orders_filter_restriction :: query_restrictions where
  \<comment> \<open>the filter option excludes \<open>Name\<close> for \<open>Orders\<close> and \<open>Id\<close> for every entity set\<close>
  "orders_filter_restriction =
     \<lparr>restr_exclude = [(''Orders'', [''Name'']), (''$P_ALL$'', [''Id''])], restr_include = []\<rparr>"

definition orders_restrictions :: restrictions_group where
  "orders_restrictions =
     \<lparr>option_restrictions =
        [(FILTER, orders_filter_restriction),
         (ORDERBY, no_restriction), (TOP, no_restriction), (SKIP, no_restriction),
         (EXPAND, no_restriction)],
      draft_objects = None\<rparr>"

definition orders_query_group :: "query_group result" where
  "orders_query_group =
     QueryGroup example_constants orders_entity_set (Some orders_restrictions) count_5000
       loaded_classes (example_rnd (constant_draws 0))"

definition exclude_concat :: query_restrictions where
  \<comment> \<open>a filter restriction that excludes the function \<open>concat\<close>\<close>
  "exclude_concat = \<lparr>restr_exclude = [(''$F_ALL$'', [''concat''])], restr_include = []\<rparr>"

definition customers_proprties :: "proprty list" where
  \<comment> \<open>the filterable properties of a second entity set\<close>
  "customers_proprties = [patch_proprty example_constants (example_proprty ''City'' ''Edm.String'' False None)]"

definition classes_after_orders :: function_classes where
  \<comment> \<open>the function classes once the function families of \<open>Orders\<close> are built with \<open>exclude_concat\<close>\<close>
  "classes_after_orders =
     (case FilterFunctionsGroup example_constants (es_proprties orders_entity_set)
             (Some exclude_concat) loaded_classes of
        Inl e \<Rightarrow> loaded_classes
      | Inr (grp, cls) \<Rightarrow> cls)"

definition filter_query_of :: "entity_set \<Rightarrow> (nat \<Rightarrow> real) \<Rightarrow> filter_query" where
  \<comment> \<open>the filter query of an entity set, built without restrictions on the classes as
      loaded, with a random source that returns the given draws\<close>
  "filter_query_of es draws =
     projr (FilterQuery example_constants es None [] loaded_classes (example_rnd draws))"

definition generated_option :: "(filter_option \<times> filter_query) result option \<Rightarrow> filter_option option" where
  \<comment> \<open>the option that a call of \<open>generate\<close> returned, if it returned one\<close>
  "generated_option r = (case r of Some (Inr (fo, q)) \<Rightarrow> Some fo | _ \<Rightarrow> None)"

definition comparisons :: "filter_option \<Rightarrow> (string option \<times> string option) list" where
  \<comment> \<open>the name and the operator of each part\<close>
  "comparisons fo = map (\<lambda>p. (part_name p, part_operator p)) (fo_parts fo)"

definition products_entity_set :: entity_set where
  \<comment> \<open>one property, restricted to intervals\<close>
  "products_entity_set =
     example_entity_set ''Products'' [example_proprty ''Price'' ''Edm.Int32'' False (Some ''interval'')]"

definition products_query_at_leaf :: "(nat \<Rightarrow> real) \<Rightarrow> filter_query" where
  \<comment> \<open>the filter query of \<open>Products\<close> where \<open>_generate_proprty\<close> is called: a part was added\<close>
  "products_query_at_leaf draws = add_part (init_variables (filter_query_of products_entity_set draws))"

definition items_entity_set :: entity_set where
  \<comment> \<open>two properties, the first of them required in a filter\<close>
  "items_entity_set =
     example_entity_set ''Items''
       [example_proprty ''Id'' ''Edm.Int32'' True None,
        example_proprty ''Qty'' ''Edm.Int32'' False None]"

definition items_selector :: proprties_selector where
  \<comment> \<open>the property selector of \<open>Items\<close> when an expression starts\<close>
  "items_selector = proprties (init_variables (filter_query_of items_entity_set (constant_draws 0)))"

definition pairs_entity_set :: entity_set where
  \<comment> \<open>two properties, both required in a filter\<close>
  "pairs_entity_set =
     example_entity_set ''Pairs''
       [example_proprty ''A'' ''Edm.Int32'' True None,
        example_proprty ''B'' ''Edm.Int32'' True None]"

definition triples_entity_set :: entity_set where
  \<comment> \<open>three properties, the first two required in a filter\<close>
  "triples_entity_set =
     example_entity_set ''Triples''
       [example_proprty ''A'' ''Edm.Int32'' True None,
        example_proprty ''B'' ''Edm.Int32'' True None,
        example_proprty ''C'' ''Edm.Int32'' False None]"

definition generated_query :: "(filter_option \<times> filter_query) result option \<Rightarrow> filter_query option" where
  \<comment> \<open>the filter query as a call of \<open>generate\<close> that returned an option left it\<close>
  "generated_query r = (case r of Some (Inr (fo, q)) \<Rightarrow> Some q | _ \<Rightarrow> None)"

definition triples_run :: "(filter_option \<times> filter_query) result option" where
  \<comment> \<open>a call of \<open>generate\<close> for \<open>Triples\<close>: the first leaf draws from the required pool, the
      other two from the other pool\<close>
  "triples_run =
     generate 20 example_constants
       (filter_query_of triples_entity_set
          (listed_draws [1 / 4, 1 / 4, 1 / 4, 1 / 4, 1 / 4, 1 / 4, 1 / 4,
                         1 / 4, 1 / 4, 1 / 4, 1 / 4, 1 / 200, 3 / 4, 1 / 4,
                         1 / 4, 1 / 4, 1 / 4, 1 / 4, 1 / 200, 3 / 4, 1 / 4,
                         1 / 4, 1 / 4, 1 / 4, 1 / 4, 1 / 200, 3 / 4, 1 / 4]))"

section \<open>Properties of the sampling primitive and of the patching\<close>

lemma find_map_comp: "find P (map f xs) = map_option f (find (P \<circ> f) xs)"
  by (induction xs) simp_all

lemma find_upt_Suc:
  "find P [0..<Suc n] = (if P 0 then Some 0 else map_option Suc (find (P \<circ> Suc) [0..<n]))"
proof -
  have "[0..<Suc n] = 0 # map Suc [0..<n]"
    by (simp add: upt_conv_Cons map_Suc_upt del: upt_Suc)
  then show ?thesis by (simp add: find_map_comp del: upt_Suc)
qed

lemma is_hit_Cons_Suc: "is_hit ((v, w) # items) r (Suc i) = is_hit items (r - w) i"
  by (simp add: is_hit_def remaining_draw_def)

lemma is_hit_Cons_0: "is_hit ((v, w) # items) r 0 = (r < w)"
  by (simp add: is_hit_def remaining_draw_def)

text \<open>
  C7. For every sequence of pairs and every draw, \<open>weighted_random\<close> returns the value of
  the first pair in scan order whose weight is strictly above the draw less the weights
  of the pairs before it, and \<open>None\<close> when the scan finds no such pair; the result is a
  function of the pairs and the draw alone.
\<close>

theorem weighted_random_first_hit: "weighted_random items r = weighted_random_spec items r"
proof (induction items arbitrary: r)
  case Nil
  then show ?case by (simp add: weighted_random_spec_def)
next
  case (Cons a items)
  obtain v w where a: "a = (v, w)" by (cases a)
  have "is_hit ((v, w) # items) r \<circ> Suc = is_hit items (r - w)"
    by (rule ext) (simp add: is_hit_Cons_Suc)
  then show ?case
    using Cons.IH [of "r - w"]
    by (simp add: a weighted_random_spec_def find_upt_Suc is_hit_Cons_0 option.map_comp
        comp_def del: upt_Suc)
qed

text \<open>
  C10. A property whose type tag is none of the tags that \<open>patch_proprty_generator\<close> handles
  (the eleven tags it compares with, and the tags that start with \<^verbatim>\<open>Edm.Int\<close> and end with
  16, 32 or 64) gets the generator that returns \<^verbatim>\<open>None\<close>: a call of \<^verbatim>\<open>generate()\<close> on it
  yields no literal.
\<close>

theorem unhandled_type_generates_None:
  assumes "typ_name proprty \<notin> {''Edm.String'', ''Edm.DateTime'', ''Edm.Boolean'', ''Edm.Byte'',
             ''Edm.SByte'', ''Edm.Single'', ''Edm.Guid'', ''Edm.Decimal'', ''Edm.DateTimeOffset'',
             ''Edm.Time'', ''Edm.Binary''}"
    and "\<not> (startswith (typ_name proprty) ''Edm.Int''
            \<and> (endswith (typ_name proprty) ''16'' \<or> endswith (typ_name proprty) ''32''
                \<or> endswith (typ_name proprty) ''64''))"
  shows "p_generate (patch_proprty c proprty) = Some Lambda_None
         \<and> call_generate c (patch_proprty c proprty) g = Inr (None, g)"
proof -
  have "p_generate (patch_proprty_generator (patch_proprty_max_length proprty)) = Some Lambda_None"
    using assms by (simp add: patch_proprty_generator_def patch_proprty_max_length_def Let_def)
  then have "p_generate (patch_proprty c proprty) = Some Lambda_None"
    by (simp add: patch_proprty_def patch_proprty_operator_def)
  then show ?thesis by (simp add: call_generate_def)
qed

theorem unhandled_type_generates_None_witness:
  "typ_name (example_proprty ''Size'' ''Edm.Int8'' False None) \<notin>
     {''Edm.String'', ''Edm.DateTime'', ''Edm.Boolean'', ''Edm.Byte'', ''Edm.SByte'', ''Edm.Single'',
      ''Edm.Guid'', ''Edm.Decimal'', ''Edm.DateTimeOffset'', ''Edm.Time'', ''Edm.Binary''}
   \<and> \<not> endswith (typ_name (example_proprty ''Size'' ''Edm.Int8'' False None)) ''16''
   \<and> p_generate (patch_proprty example_constants (example_proprty ''Size'' ''Edm.Int8'' False None))
       = Some Lambda_None
   \<and> call_generate example_constants
        (patch_proprty example_constants (example_proprty ''Size'' ''Edm.Int8'' False None))
        (example_rnd (constant_draws 0))
       = Inr (None, example_rnd (constant_draws 0))"
  using unhandled_type_generates_None
    [of "example_proprty ''Size'' ''Edm.Int8'' False None" example_constants
      "example_rnd (constant_draws 0)"]
  by (simp add: example_proprty_def endswith_def)

section \<open>Properties of the top and skip queries\<close>

lemma py_round_le_ceiling: "py_round x \<le> \<lceil>x\<rceil>"
  unfolding py_round_def Let_def by (auto; linarith)

lemma py_round_scaled_le:
  assumes "0 \<le> r" "r < 1"
  shows "py_round (r * of_int m) \<le> max m 0"
proof (cases "0 \<le> m")
  case True
  have "r * of_int m \<le> of_int m" using assms True by (simp add: mult_left_le_one_le)
  then have "\<lceil>r * of_int m\<rceil> \<le> m" by (simp add: ceiling_le_iff)
  then show ?thesis using py_round_le_ceiling [of "r * of_int m"] by linarith
next
  case False
  then have "r * of_int m \<le> 0" using assms by (simp add: mult_nonneg_nonpos)
  then have "\<lceil>r * of_int m\<rceil> \<le> 0" by (simp add: ceiling_le_iff)
  then show ?thesis using py_round_le_ceiling [of "r * of_int m"] by linarith
qed

lemma weighted_random_in_keys: "weighted_random items r = Some v \<Longrightarrow> v \<in> fst ` set items"
  by (induction items r rule: weighted_random.induct) (auto split: if_splits)

lemma dict_set_keys: "fst ` set (dict_set k v d) = insert k (fst ` set d)"
proof (induction d)
  case Nil
  then show ?case by simp
next
  case (Cons a d)
  obtain k' v' where a: "a = (k', v')" by (cases a)
  show ?case using Cons by (cases "k' = k") (simp_all add: a insert_commute)
qed

lemma TopQuery_keys:
  assumes "TopQuery c entity restrictions dispatcher_get = Inr tq" and "1000 \<le> INT_MAX c"
    and "k \<in> fst ` set (max_range_prob tq)"
  shows "k \<le> INT_MAX c"
  using assms
  by (auto simp: TopQuery_def top_set_max_range_def Let_def bind_result_def dict_set_keys
      split: sum.splits if_splits)

text \<open>
  C4, as the claim states it, fails: the count request answers 5000, so the configured
  maximum range is the ceiling 1000; the skip query generates 1073741824, and the top query,
  given that value, generates 500.
\<close>

theorem top_exceeds_configured_range:
  "TopQuery example_constants (example_entity_set ''Orders'' []) None count_5000 = Inr orders_top_query
   \<and> SkipQuery example_constants (example_entity_set ''Orders'' []) None = Inr orders_skip_query
   \<and> skip_then_top example_constants orders_skip_query orders_top_query
        (example_rnd (constant_draws (1 / 2))) = Inr (1073741824, 500)
   \<and> \<not> (1073741824 + 500 \<le> (1000::int))"
  by code_simp

text \<open>
  C4, amended. The only bound that \<open>TopQuery.generate\<close> enforces on the sum is \<open>INT_MAX\<close>:
  for a skip value \<open>S \<le> INT_MAX\<close> passed as depending data, and a draw in \<open>[0, 1)\<close>, the
  generated top value \<open>T\<close> satisfies \<open>S + T \<le> INT_MAX\<close> (with \<open>INT_MAX\<close> at least the
  ceiling 1000).
\<close>

theorem top_after_skip_within_INT_MAX:
  assumes init: "TopQuery c entity restrictions dispatcher_get = Inr tq"
    and limit: "1000 \<le> INT_MAX c"
    and skip: "map_of depending SKIP = Some S" "S \<le> INT_MAX c"
    and draw: "0 \<le> random_results g (Suc (random_calls g))"
      "random_results g (Suc (random_calls g)) < 1"
    and gen: "top_generate c tq depending g = Inr (T, tq', g')"
  shows "S + T \<le> INT_MAX c"
proof -
  obtain sel where sel:
    "weighted_random (max_range_prob tq) (random_results g (random_calls g)) = Some sel"
    using gen
    by (auto simp: top_generate_def range_generate_def random_def Let_def split: option.splits)
  have sel_le: "sel \<le> INT_MAX c"
    using TopQuery_keys [OF init limit] weighted_random_in_keys [OF sel] by blast
  define m where "m = (if S \<noteq> 0 \<and> INT_MAX c < S + sel then INT_MAX c - S else sel)"
  have T: "T = py_round (random_results g (Suc (random_calls g)) * of_int m)"
    using gen sel skip(1)
    by (simp add: top_generate_def range_generate_def random_def Let_def m_def)
  have "T \<le> max m 0" unfolding T by (rule py_round_scaled_le [OF draw])
  moreover have "S + max m 0 \<le> INT_MAX c"
    using skip(2) sel_le limit by (auto simp: m_def max_def)
  ultimately show ?thesis by linarith
qed

theorem top_after_skip_within_INT_MAX_witness:
  "TopQuery example_constants (example_entity_set ''Orders'' []) None count_5000 = Inr orders_top_query
   \<and> map_of [(SKIP, 1073741824)] SKIP = Some (1073741824::int)
   \<and> top_generate example_constants orders_top_query [(SKIP, 1073741824)]
        (example_rnd (constant_draws (1 / 2)))
       = Inr (500, orders_top_query\<lparr>depending_data := 500\<rparr>,
              (example_rnd (constant_draws (1 / 2)))\<lparr>random_calls := 2\<rparr>)
   \<and> 1073741824 + 500 \<le> INT_MAX example_constants"
proof -
  have init: "TopQuery example_constants (example_entity_set ''Orders'' []) None count_5000
                = Inr orders_top_query"
    by code_simp
  have limit: "1000 \<le> INT_MAX example_constants" by (simp add: example_constants_def)
  have skip: "map_of [(SKIP, 1073741824)] SKIP = Some (1073741824::int)"
    "1073741824 \<le> INT_MAX example_constants"
    by (simp_all add: example_constants_def)
  have draw: "0 \<le> random_results (example_rnd (constant_draws (1 / 2)))
                    (Suc (random_calls (example_rnd (constant_draws (1 / 2)))))"
    "random_results (example_rnd (constant_draws (1 / 2)))
       (Suc (random_calls (example_rnd (constant_draws (1 / 2))))) < 1"
    by (simp_all add: example_rnd_def constant_draws_def)
  have gen: "top_generate example_constants orders_top_query [(SKIP, 1073741824)]
               (example_rnd (constant_draws (1 / 2)))
             = Inr (500, orders_top_query\<lparr>depending_data := 500\<rparr>,
                    (example_rnd (constant_draws (1 / 2)))\<lparr>random_calls := 2\<rparr>)"
    by (simp add: top_generate_def range_generate_def random_def Let_def orders_top_query_def
        example_rnd_def constant_draws_def example_constants_def py_round_def)
  show ?thesis
    using top_after_skip_within_INT_MAX [OF init limit skip draw gen] init skip(1) gen by simp
qed

text \<open>
  C8. When the count request of the top query fails (the dispatcher raises its error, or
  the text of the response is no integer), the total is taken to be \<open>INT_MAX\<close>: the
  constructor returns the very query it returns for a count of \<open>INT_MAX\<close>, without an
  exception, and so does the step of the query group that builds the top query.
\<close>

theorem top_probe_failure_assumes_INT_MAX:
  assumes probe:
      "dispatcher_get (es_name entity @ ''/'' @ ''$count?'' @ ''sap-client='' @ Config_client c)
         \<in> {Raises_DispatcherError, Response_text Not_int_text}"
    and probed: "include_max_values restrictions (es_name entity) = []"
  shows "get_total_entities c (es_name entity) dispatcher_get = INT_MAX c
         \<and> (\<exists>tq. TopQuery c entity restrictions dispatcher_get = Inr tq
                \<and> TopQuery c entity restrictions (\<lambda>url. Response_text (Int_text (INT_MAX c))) = Inr tq)
         \<and> (\<forall>qg not_restricted.
               qg_entity_set qg = entity \<and> get_restrictions c qg TOP = Inr (restrictions, not_restricted)
               \<longrightarrow> (\<exists>qg'. init_top_query c dispatcher_get qg = Inr qg'))"
proof -
  have total: "get_total_entities c (es_name entity) dispatcher_get = INT_MAX c"
    using probe by (auto simp: get_total_entities_def)
  have top: "\<exists>tq. TopQuery c entity restrictions dispatcher_get = Inr tq
                \<and> TopQuery c entity restrictions (\<lambda>url. Response_text (Int_text (INT_MAX c))) = Inr tq"
    using total probed
    by (simp add: TopQuery_def top_set_max_range_def Let_def bind_result_def get_total_entities_def)
  have "\<exists>qg'. init_top_query c dispatcher_get qg = Inr qg'"
    if "qg_entity_set qg = entity" "get_restrictions c qg TOP = Inr (restrictions, not_restricted)"
    for qg not_restricted
    using that top by (auto simp: init_top_query_def bind_result_def)
  then show ?thesis using total top by blast
qed

theorem top_probe_failure_assumes_INT_MAX_witness:
  "dispatcher_down (es_name (example_entity_set ''Orders'' []) @ ''/'' @ ''$count?'' @ ''sap-client=''
                      @ Config_client example_constants)
     \<in> {Raises_DispatcherError, Response_text Not_int_text}
   \<and> include_max_values None (es_name (example_entity_set ''Orders'' [])) = []
   \<and> get_total_entities example_constants (es_name (example_entity_set ''Orders'' [])) dispatcher_down
       = INT_MAX example_constants
   \<and> TopQuery example_constants (example_entity_set ''Orders'' []) None dispatcher_down
       = Inr orders_top_query"
proof -
  have probe: "dispatcher_down (es_name (example_entity_set ''Orders'' []) @ ''/'' @ ''$count?''
                 @ ''sap-client='' @ Config_client example_constants)
               \<in> {Raises_DispatcherError, Response_text Not_int_text}"
    by (simp add: dispatcher_down_def)
  have probed: "include_max_values None (es_name (example_entity_set ''Orders'' [])) = []"
    by (simp add: include_max_values_def)
  have "TopQuery example_constants (example_entity_set ''Orders'' []) None dispatcher_down
          = Inr orders_top_query"
    by code_simp
  then show ?thesis
    using top_probe_failure_assumes_INT_MAX
      [where dispatcher_get = dispatcher_down and entity = "example_entity_set ''Orders'' []"
         and c = example_constants and restrictions = None, OF probe probed]
      probe probed
    by simp
qed

section \<open>Properties of the construction of a query group\<close>

lemma map_of_dict_set: "map_of (dict_set k v d) k' = (if k' = k then Some v else map_of d k')"
  by (induction d) auto

lemma delete_restricted_proprties_snd:
  "delete_restricted_proprties c es ex attribute drafts = (e, ex') \<Longrightarrow>
   ex' = extended_exclude c (es_name es) ex"
  by (auto simp: delete_restricted_proprties_def extended_exclude_def Let_def)

lemma map_of_set_exclude:
  "map_of (map (\<lambda>(m, q). if m = n' then (m, q\<lparr>restr_exclude := ex\<rparr>) else (m, q)) xs) n
   = map_option (\<lambda>q. if n = n' then q\<lparr>restr_exclude := ex\<rparr> else q) (map_of xs n)"
  by (induction xs) auto

lemma restriction_set_exclude:
  assumes "restriction rg n = Inr qr" and "set_restriction_exclude n' ex (Some rg) = Some rg'"
  shows "restriction rg' n = Inr (if n = n' then qr\<lparr>restr_exclude := ex\<rparr> else qr)"
proof -
  have qr: "map_of (option_restrictions rg) n = Some qr"
    using assms(1) by (simp add: restriction_def split: option.splits)
  have rg': "option_restrictions rg' =
      map (\<lambda>(m, q). if m = n' then (m, q\<lparr>restr_exclude := ex\<rparr>) else (m, q)) (option_restrictions rg)"
    using assms(2) by (auto simp: set_restriction_exclude_def)
  show ?thesis
    unfolding restriction_def rg' map_of_set_exclude qr by simp
qed

lemma init_filter_query_frame:
  assumes "init_filter_query c g qg = Inr qg'"
  shows "qg_entity_set qg' =
           (qg_entity_set qg)\<lparr>req_filter := (case qg_restrictions qg of
                                                 None \<Rightarrow> req_filter (qg_entity_set qg)
                                               | Some rg \<Rightarrow> True)\<rparr>"
    and "qg_restrictions qg' =
           (case qg_restrictions qg of
              None \<Rightarrow> None
            | Some rg \<Rightarrow>
                (case restriction rg FILTER of
                   Inl e \<Rightarrow> Some rg
                 | Inr qr \<Rightarrow> set_restriction_exclude FILTER
                              (extended_exclude c (es_name (qg_entity_set qg)) (restr_exclude qr))
                              (Some rg)))"
  using assms
  unfolding init_filter_query_def get_restrictions_def
  by (auto simp: bind_result_def Let_def
      dest!: delete_restricted_proprties_snd
      split: option.splits sum.splits prod.splits if_splits)

lemma init_orderby_query_frame:
  assumes "init_orderby_query c qg = Inr qg'"
  shows "qg_entity_set qg' = qg_entity_set qg"
    and "qg_restrictions qg' =
           (case qg_restrictions qg of
              None \<Rightarrow> None
            | Some rg \<Rightarrow>
                (case restriction rg ORDERBY of
                   Inl e \<Rightarrow> Some rg
                 | Inr qr \<Rightarrow> set_restriction_exclude ORDERBY
                              (extended_exclude c (es_name (qg_entity_set qg)) (restr_exclude qr))
                              (Some rg)))"
  using assms
  unfolding init_orderby_query_def get_restrictions_def
  by (auto simp: bind_result_def Let_def
      dest!: delete_restricted_proprties_snd
      split: option.splits sum.splits prod.splits if_splits)

lemma init_expand_query_frame:
  assumes "init_expand_query c qg = Inr qg'"
  shows "qg_entity_set qg' = qg_entity_set qg" and "qg_restrictions qg' = qg_restrictions qg"
  using assms
  unfolding init_expand_query_def get_restrictions_def
  by (auto simp: bind_result_def Let_def split: option.splits sum.splits prod.splits if_splits)

lemma init_top_query_frame:
  assumes "init_top_query c d qg = Inr qg'"
  shows "qg_entity_set qg' = qg_entity_set qg" and "qg_restrictions qg' = qg_restrictions qg"
  using assms
  unfolding init_top_query_def get_restrictions_def add_range_option_def
  by (auto simp: bind_result_def Let_def split: option.splits sum.splits prod.splits if_splits)

lemma init_skip_query_frame:
  assumes "init_skip_query c qg = Inr qg'"
  shows "qg_entity_set qg' = qg_entity_set qg" and "qg_restrictions qg' = qg_restrictions qg"
  using assms
  unfolding init_skip_query_def get_restrictions_def add_range_option_def
  by (auto simp: bind_result_def Let_def split: option.splits sum.splits prod.splits if_splits)

lemma bind_result_Inr: "bind_result m f = Inr y \<Longrightarrow> \<exists>x. m = Inr x \<and> f x = Inr y"
  by (cases m) (simp_all add: bind_result_def)

lemma QueryGroup_steps:
  assumes "QueryGroup c es restrictions dispatcher_get cls g = Inr qg"
  obtains qg1 qg2 qg3 qg4 qg5 where
    "init_filter_query c g
       \<lparr>qg_entity_set = es, qg_restrictions = restrictions, qg_filter = None, qg_orderby = None,
        qg_expand = None, qg_top = None, qg_skip = None, query_options_list = [],
        required_options = [], accessible_entity = None, qg_classes = cls\<rparr> = Inr qg1"
    "init_orderby_query c qg1 = Inr qg2" "init_expand_query c qg2 = Inr qg3"
    "init_top_query c dispatcher_get qg3 = Inr qg4" "init_skip_query c qg4 = Inr qg5"
    "qg = init_accessible_entity_path c qg5"
  using assms unfolding QueryGroup_def
  by (blast dest!: bind_result_Inr)

text \<open>
  C5, as the claim states it, fails: with restrictions present, the constructor sets the
  requires-filter flag of the entity set it was given.
\<close>

theorem init_sets_requires_filter_of_original:
  "\<not> isl orders_query_group \<and> \<not> req_filter orders_entity_set
   \<and> req_filter (qg_entity_set (projr orders_query_group))"
  by code_simp

text \<open>
  C5, amended. The properties are removed on a deep copy: after the constructor, the entity
  set it was given has its name, its navigation properties, its flags \<open>addressable\<close>,
  \<open>topable\<close> and \<open>pageable\<close> and its collection of properties as before, except that the
  properties of an entity set that is not addressable are patched again (by
  \<open>patch_proprties\<close>, in \<open>NonAddressableEntity\<close>); its requires-filter flag is \<open>True\<close> when a
  restrictions object was supplied and as before otherwise.
\<close>

theorem original_entity_set_after_init:
  assumes "QueryGroup c es restrictions dispatcher_get cls g = Inr qg"
  shows "es_name (qg_entity_set qg) = es_name es
         \<and> es_nav_proprties (qg_entity_set qg) = es_nav_proprties es
         \<and> addressable (qg_entity_set qg) = addressable es
         \<and> topable (qg_entity_set qg) = topable es
         \<and> pageable (qg_entity_set qg) = pageable es
         \<and> es_proprties (qg_entity_set qg) =
             (if addressable es then es_proprties es else map (patch_proprty c) (es_proprties es))
         \<and> req_filter (qg_entity_set qg) =
             (case restrictions of None \<Rightarrow> req_filter es | Some rg \<Rightarrow> True)"
proof -
  from assms obtain qg1 qg2 qg3 qg4 qg5 where steps:
    "init_filter_query c g
       \<lparr>qg_entity_set = es, qg_restrictions = restrictions, qg_filter = None, qg_orderby = None,
        qg_expand = None, qg_top = None, qg_skip = None, query_options_list = [],
        required_options = [], accessible_entity = None, qg_classes = cls\<rparr> = Inr qg1"
    "init_orderby_query c qg1 = Inr qg2" "init_expand_query c qg2 = Inr qg3"
    "init_top_query c dispatcher_get qg3 = Inr qg4" "init_skip_query c qg4 = Inr qg5"
    "qg = init_accessible_entity_path c qg5"
    by (rule QueryGroup_steps)
  have "qg_entity_set qg5 =
          es\<lparr>req_filter := (case restrictions of None \<Rightarrow> req_filter es | Some rg \<Rightarrow> True)\<rparr>"
    using init_filter_query_frame(1) [OF steps(1)] init_orderby_query_frame(1) [OF steps(2)]
      init_expand_query_frame(1) [OF steps(3)] init_top_query_frame(1) [OF steps(4)]
      init_skip_query_frame(1) [OF steps(5)]
    by (simp split: option.splits)
  then show ?thesis
    unfolding steps(6) init_accessible_entity_path_def patch_proprties_def
    by (simp split: option.splits)
qed

theorem original_entity_set_after_init_witness:
  "QueryGroup example_constants orders_entity_set (Some orders_restrictions) count_5000
     loaded_classes (example_rnd (constant_draws 0)) = Inr (projr orders_query_group)
   \<and> es_name (qg_entity_set (projr orders_query_group)) = es_name orders_entity_set
   \<and> es_nav_proprties (qg_entity_set (projr orders_query_group)) = es_nav_proprties orders_entity_set
   \<and> addressable (qg_entity_set (projr orders_query_group)) = addressable orders_entity_set
   \<and> topable (qg_entity_set (projr orders_query_group)) = topable orders_entity_set
   \<and> pageable (qg_entity_set (projr orders_query_group)) = pageable orders_entity_set
   \<and> es_proprties (qg_entity_set (projr orders_query_group)) = es_proprties orders_entity_set
   \<and> req_filter (qg_entity_set (projr orders_query_group))"
proof -
  have "\<not> isl orders_query_group" by code_simp
  then have run: "QueryGroup example_constants orders_entity_set (Some orders_restrictions)
      count_5000 loaded_classes (example_rnd (constant_draws 0)) = Inr (projr orders_query_group)"
    by (simp add: orders_query_group_def)
  have "addressable orders_entity_set"
    by (simp add: orders_entity_set_def example_entity_set_def)
  then show ?thesis
    using original_entity_set_after_init [OF run] run by simp
qed

text \<open>
  C9. When the exclude dictionary of the filter option, or of the orderby option, has an
  entry under the entity set's own name, the restrictions object that the caller supplied
  holds, after the query group is built, that entry with the global property exclusions
  appended to it.
\<close>

theorem query_group_extends_exclude_entry:
  assumes init: "QueryGroup c es (Some rg) dispatcher_get cls g = Inr qg"
    and option: "n = FILTER \<or> n = ORDERBY"
    and restr: "restriction rg n = Inr qr"
    and own: "map_of (restr_exclude qr) (es_name es) = Some own"
  shows "\<exists>rg' qr'. qg_restrictions qg = Some rg' \<and> restriction rg' n = Inr qr'
           \<and> map_of (restr_exclude qr') (es_name es)
               = Some (own @ dict_get_list (restr_exclude qr) (GLOBAL_PROPRTY c))"
proof -
  from init obtain qg1 qg2 qg3 qg4 qg5 where steps:
    "init_filter_query c g
       \<lparr>qg_entity_set = es, qg_restrictions = Some rg, qg_filter = None, qg_orderby = None,
        qg_expand = None, qg_top = None, qg_skip = None, query_options_list = [],
        required_options = [], accessible_entity = None, qg_classes = cls\<rparr> = Inr qg1"
    "init_orderby_query c qg1 = Inr qg2" "init_expand_query c qg2 = Inr qg3"
    "init_top_query c dispatcher_get qg3 = Inr qg4" "init_skip_query c qg4 = Inr qg5"
    "qg = init_accessible_entity_path c qg5"
    by (rule QueryGroup_steps)
  obtain qf where qf: "restriction rg FILTER = Inr qf"
    using steps(1)
    by (auto simp: init_filter_query_def get_restrictions_def bind_result_def split: sum.splits)
  define rg1 where "rg1 = rg\<lparr>option_restrictions :=
      map (\<lambda>(m, q). if m = FILTER
                     then (m, q\<lparr>restr_exclude := extended_exclude c (es_name es) (restr_exclude qf)\<rparr>)
                     else (m, q)) (option_restrictions rg)\<rparr>"
  have r1: "qg_restrictions qg1 = Some rg1"
    using init_filter_query_frame(2) [OF steps(1)] qf
    by (simp add: set_restriction_exclude_def rg1_def)
  have set1: "set_restriction_exclude FILTER (extended_exclude c (es_name es) (restr_exclude qf))
                (Some rg) = Some rg1"
    by (simp add: set_restriction_exclude_def rg1_def)
  have e1: "es_name (qg_entity_set qg1) = es_name es"
    using init_filter_query_frame(1) [OF steps(1)] by simp
  obtain qo where qo: "restriction rg1 ORDERBY = Inr qo"
    using steps(2) r1
    by (auto simp: init_orderby_query_def get_restrictions_def bind_result_def split: sum.splits)
  define rg2 where "rg2 = rg1\<lparr>option_restrictions :=
      map (\<lambda>(m, q). if m = ORDERBY
                     then (m, q\<lparr>restr_exclude := extended_exclude c (es_name es) (restr_exclude qo)\<rparr>)
                     else (m, q)) (option_restrictions rg1)\<rparr>"
  have set2: "set_restriction_exclude ORDERBY (extended_exclude c (es_name es) (restr_exclude qo))
                (Some rg1) = Some rg2"
    by (simp add: set_restriction_exclude_def rg2_def)
  have r2: "qg_restrictions qg2 = Some rg2"
    using init_orderby_query_frame(2) [OF steps(2)] r1 qo e1 set2 by simp
  have r: "qg_restrictions qg = Some rg2"
    using r2 init_expand_query_frame(2) [OF steps(3)] init_top_query_frame(2) [OF steps(4)]
      init_skip_query_frame(2) [OF steps(5)]
    by (simp add: steps(6) init_accessible_entity_path_def)
  have ext: "map_of (extended_exclude c (es_name es) (restr_exclude qr)) (es_name es)
             = Some (own @ dict_get_list (restr_exclude qr) (GLOBAL_PROPRTY c))"
    using own by (simp add: extended_exclude_def map_of_dict_set dict_get_list_def)
  show ?thesis
  proof (cases "n = FILTER")
    case True
    then have "qf = qr" using qf restr by simp
    have "restriction rg1 FILTER = Inr (qr\<lparr>restr_exclude := extended_exclude c (es_name es) (restr_exclude qr)\<rparr>)"
      using restriction_set_exclude [OF qf set1] \<open>qf = qr\<close> by simp
    from restriction_set_exclude [OF this set2]
    have "restriction rg2 FILTER = Inr (qr\<lparr>restr_exclude := extended_exclude c (es_name es) (restr_exclude qr)\<rparr>)"
      by simp
    then show ?thesis using r ext True by simp
  next
    case False
    then have n: "n = ORDERBY" using option by simp
    have "restriction rg1 ORDERBY = Inr qr"
      using restriction_set_exclude [OF restr set1] n by simp
    then have "qo = qr" using qo by simp
    have "restriction rg2 ORDERBY = Inr (qr\<lparr>restr_exclude := extended_exclude c (es_name es) (restr_exclude qr)\<rparr>)"
      using restriction_set_exclude [OF qo set2] \<open>qo = qr\<close> by simp
    then show ?thesis using r ext n by simp
  qed
qed

theorem query_group_extends_exclude_entry_witness:
  "QueryGroup example_constants orders_entity_set (Some orders_restrictions) count_5000
     loaded_classes (example_rnd (constant_draws 0)) = Inr (projr orders_query_group)
   \<and> restriction orders_restrictions FILTER = Inr orders_filter_restriction
   \<and> map_of (restr_exclude orders_filter_restriction) (es_name orders_entity_set) = Some [''Name'']
   \<and> (\<exists>rg' qr'. qg_restrictions (projr orders_query_group) = Some rg'
         \<and> restriction rg' FILTER = Inr qr'
         \<and> map_of (restr_exclude qr') (es_name orders_entity_set) = Some [''Name'', ''Id''])"
proof -
  have "\<not> isl orders_query_group" by code_simp
  then have run: "QueryGroup example_constants orders_entity_set (Some orders_restrictions)
      count_5000 loaded_classes (example_rnd (constant_draws 0)) = Inr (projr orders_query_group)"
    by (simp add: orders_query_group_def)
  have option: "FILTER = FILTER \<or> FILTER = ORDERBY" by simp
  have restr: "restriction orders_restrictions FILTER = Inr orders_filter_restriction"
    by (simp add: restriction_def orders_restrictions_def)
  have own: "map_of (restr_exclude orders_filter_restriction) (es_name orders_entity_set)
             = Some [''Name'']"
    by (simp add: orders_filter_restriction_def orders_entity_set_def example_entity_set_def)
  have "[''Name''] @ dict_get_list (restr_exclude orders_filter_restriction)
                       (GLOBAL_PROPRTY example_constants) = [''Name'', ''Id'']"
    by (simp add: dict_get_list_def orders_filter_restriction_def example_constants_def)
  then show ?thesis
    using query_group_extends_exclude_entry [OF run option restr own] run restr own by simp
qed

section \<open>The exclusion of a function\<close>

text \<open>
  C3 fails on the code, which the specification itself names as a defect: the restricted
  function is deleted from the class that all instances of a family share. The function
  families of \<open>Orders\<close> are built with a restriction that excludes \<open>concat\<close>; the family of
  string functions of another entity set, built without any restriction, exposes
  \<open>func_concat\<close> when it is built on the classes as loaded, and no longer exposes it when
  it is built after those of \<open>Orders\<close>.
\<close>

theorem excluded_function_is_lost_for_other_entity_sets:
  "\<not> isl (FilterFunctionsGroup example_constants (es_proprties orders_entity_set)
            (Some exclude_concat) loaded_classes)
   \<and> FilterFunctionsGroup example_constants customers_proprties None loaded_classes
       = Inr ([(String, customers_proprties)], loaded_classes)
   \<and> ''func_concat'' \<in> set (get_methods_dict loaded_classes String)
   \<and> FilterFunctionsGroup example_constants customers_proprties None classes_after_orders
       = Inr ([(String, customers_proprties)], classes_after_orders)
   \<and> ''func_concat'' \<notin> set (get_methods_dict classes_after_orders String)"
  by code_simp

section \<open>Properties of the filter expression generator\<close>

lemma update_last_snoc [simp]: "update_last f (xs @ [x]) = xs @ [f x]"
  by (simp add: update_last_def)

lemma add_logical_effect:
  "logicals (add_logical q) = logicals q @ [new_logical (getrandbits_results (rnd q) (getrandbits_calls (rnd q)))]"
  "parts (add_logical q) = parts q" "groups (add_logical q) = groups q"
  "groups_stack (add_logical q) = groups_stack q" "option_string (add_logical q) = option_string q"
  by (simp_all add: add_logical_def getrandbits_def)

lemma add_part_effect:
  "parts (add_part q) = parts q @ [new_part (getrandbits_results (rnd q) (getrandbits_calls (rnd q)))]"
  "logicals (add_part q) = logicals q" "groups (add_part q) = groups q"
  "groups_stack (add_part q) = groups_stack q" "option_string (add_part q) = option_string q"
  by (simp_all add: add_part_def getrandbits_def)

lemma update_left_logical_references_effect:
  assumes "update_left_logical_references q = Inr q'" "logicals q = ls @ [l]" "parts q = ps @ [m]"
  shows "\<exists>l'. logicals q' = ls @ [l'] \<and> logical_id l' = logical_id l
              \<and> logical_name l' = logical_name l \<and> logical_left_id l' = Some (part_id m)"
    and "parts q' = ps @ [m\<lparr>part_right_id := Some (logical_id l)\<rparr>]"
    and "option_string q' = option_string q" and "groups q' = groups q"
    and "groups_stack q' = groups_stack q"
  using assms
  by (auto simp: update_left_logical_references_def Let_def split: option.splits)

lemma update_proprty_part_effect:
  assumes "update_proprty_part n operator operand b q = Inr q'" "parts q = ps @ [p]"
  shows "parts q' = ps @ [p\<lparr>part_name := Some n, part_operator := Some operator,
                              part_operand := Some operand, part_replaceable := Some b\<rparr>]"
    and "logicals q' = logicals q" and "option_string q' = option_string q"
    and "groups q' = groups q" and "groups_stack q' = groups_stack q"
    and "right_part q' = right_part q"
  using assms by (auto simp: update_proprty_part_def)

lemma set_right_logical_references_effect:
  assumes "set_right_logical_references q = Inr q'" "logicals q = ls @ [l]" "parts q = ps @ [p]"
  shows "\<exists>l'. logicals q' = ls @ [l'] \<and> logical_id l' = logical_id l
              \<and> logical_name l' = logical_name l \<and> logical_left_id l' = logical_left_id l
              \<and> logical_right_id l' = Some (part_id p)"
    and "parts q' = ps @ [p\<lparr>part_left_id := Some (logical_id l)\<rparr>]"
    and "option_string q' = option_string q"
  using assms
  by (auto simp: set_right_logical_references_def Let_def split: option.splits)

lemma generate_sap_restricted_effect:
  assumes run: "generate_sap_restricted c proprty lg op q = Inr q'" and parts: "parts q = ps @ [m]"
  shows "\<exists>l companion operand.
           logicals q' = logicals q @ [l]
           \<and> parts q' = ps @ [m\<lparr>part_right_id := Some (logical_id l)\<rparr>, companion]
           \<and> logical_name l = Some lg \<and> logical_left_id l = Some (part_id m)
           \<and> part_name companion = Some (p_name proprty) \<and> part_operator companion = Some op
           \<and> option_string q' = option_string q @ '' '' @ lg @ '' '' @ p_name proprty @ '' '' @ op
                                    @ '' '' @ operand"
proof -
  define q3 where "q3 = (add_logical (q\<lparr>option_string := option_string q @ '' '' @ lg @ '' ''\<rparr>))
      \<lparr>logicals := update_last (\<lambda>l. l\<lparr>logical_name := Some lg\<rparr>)
         (logicals (add_logical (q\<lparr>option_string := option_string q @ '' '' @ lg @ '' ''\<rparr>)))\<rparr>"
  obtain i where l3: "logicals q3 = logicals q @ [(new_logical i)\<lparr>logical_name := Some lg\<rparr>]"
    by (simp add: q3_def add_logical_effect)
  have p3: "parts q3 = ps @ [m]" and o3: "option_string q3 = option_string q @ '' '' @ lg @ '' ''"
    by (simp_all add: q3_def add_logical_effect parts)
  from run obtain q4 where q4: "update_left_logical_references q3 = Inr q4"
    and rest: "bind_result (call_generate c proprty (rnd (add_part q4)))
       (\<lambda>(operand, g). case operand of None \<Rightarrow> Inl TypeError
          | Some operand' \<Rightarrow>
              update_proprty_part (p_name proprty) op operand'
                (case replaceable proprty of None \<Rightarrow> True | Some b \<Rightarrow> b)
                ((add_part q4)\<lparr>rnd := g,
                   option_string := option_string (add_part q4) @ p_name proprty @ '' '' @ op
                                    @ '' '' @ operand'\<rparr>)) = Inr q'"
    unfolding generate_sap_restricted_def Let_def q3_def [symmetric]
    by (cases "update_left_logical_references q3") (simp_all add: bind_result_def)
  from update_left_logical_references_effect [OF q4 l3 p3]
  obtain l where l4: "logicals q4 = logicals q @ [l]" "logical_name l = Some lg"
      "logical_left_id l = Some (part_id m)" "logical_id l = i"
    and p4: "parts q4 = ps @ [m\<lparr>part_right_id := Some i\<rparr>]"
    and o4: "option_string q4 = option_string q3"
    by (auto simp: new_logical_def)
  from rest obtain operand g where
    upd: "update_proprty_part (p_name proprty) op operand
            (case replaceable proprty of None \<Rightarrow> True | Some b \<Rightarrow> b)
            ((add_part q4)\<lparr>rnd := g,
               option_string := option_string (add_part q4) @ p_name proprty @ '' '' @ op
                                @ '' '' @ operand\<rparr>) = Inr q'"
  proof -
    from rest obtain a b where ab: "call_generate c proprty (rnd (add_part q4)) = Inr (a, b)"
      and body: "(case a of None \<Rightarrow> Inl TypeError
          | Some operand' \<Rightarrow>
              update_proprty_part (p_name proprty) op operand'
                (case replaceable proprty of None \<Rightarrow> True | Some b \<Rightarrow> b)
                ((add_part q4)\<lparr>rnd := b,
                   option_string := option_string (add_part q4) @ p_name proprty @ '' '' @ op
                                    @ '' '' @ operand'\<rparr>)) = Inr q'"
      by (auto dest!: bind_result_Inr)
    show ?thesis
    proof (cases a)
      case None
      then show ?thesis using body by simp
    next
      case (Some operand')
      then show ?thesis using body that by simp
    qed
  qed
  obtain j where p5: "parts ((add_part q4)\<lparr>rnd := g,
               option_string := option_string (add_part q4) @ p_name proprty @ '' '' @ op
                                @ '' '' @ operand\<rparr>) = (ps @ [m\<lparr>part_right_id := Some i\<rparr>]) @ [new_part j]"
    by (simp add: add_part_effect p4)
  from update_proprty_part_effect [OF upd p5]
  have "parts q' = ps @ [m\<lparr>part_right_id := Some i\<rparr>,
          (new_part j)\<lparr>part_name := Some (p_name proprty), part_operator := Some op,
             part_operand := Some operand,
             part_replaceable := Some (case replaceable proprty of None \<Rightarrow> True | Some b \<Rightarrow> b)\<rparr>]"
    and "logicals q' = logicals q @ [l]"
    and "option_string q' = option_string q @ '' '' @ lg @ '' '' @ p_name proprty @ '' '' @ op
                             @ '' '' @ operand"
    by (simp_all add: add_part_effect l4 o4 o3)
  then show ?thesis using l4 by force
qed

lemma generate_next_interval_value_effect:
  assumes run: "generate_next_interval_value c proprty op q = Inr q'" and parts: "parts q = ps @ [m]"
  shows "\<exists>l companion operand.
           logicals q' = logicals q @ [l]
           \<and> parts q' = ps @ [m\<lparr>part_right_id := Some (logical_id l)\<rparr>, companion]
           \<and> logical_name l = Some ''and''
           \<and> logical_left_id l = Some (part_id m)
           \<and> logical_right_id l = Some (part_id companion)
           \<and> part_name companion = Some (p_name proprty)
           \<and> part_operator companion = Some op
           \<and> part_left_id companion = Some (logical_id l)
           \<and> option_string q' = option_string q @ '' and '' @ p_name proprty @ '' '' @ op
                                    @ '' '' @ operand"
proof -
  from run obtain q1 where q1: "generate_sap_restricted c proprty ''and'' op q = Inr q1"
    and q': "set_right_logical_references q1 = Inr q'"
    unfolding generate_next_interval_value_def by (auto dest!: bind_result_Inr)
  from generate_sap_restricted_effect [OF q1 parts]
  obtain l companion operand where 1: "logicals q1 = logicals q @ [l]"
    "parts q1 = (ps @ [m\<lparr>part_right_id := Some (logical_id l)\<rparr>]) @ [companion]"
    "logical_name l = Some ''and''" "logical_left_id l = Some (part_id m)"
    "part_name companion = Some (p_name proprty)" "part_operator companion = Some op"
    "option_string q1 = option_string q @ '' '' @ ''and'' @ '' '' @ p_name proprty @ '' '' @ op
                          @ '' '' @ operand"
    by auto
  from set_right_logical_references_effect [OF q' 1(1) 1(2)]
  obtain l' where 2: "logicals q' = logicals q @ [l']" "logical_id l' = logical_id l"
    "logical_name l' = logical_name l" "logical_left_id l' = logical_left_id l"
    "logical_right_id l' = Some (part_id companion)"
    "parts q' = ps @ [m\<lparr>part_right_id := Some (logical_id l)\<rparr>,
                      companion\<lparr>part_left_id := Some (logical_id l)\<rparr>]"
    "option_string q' = option_string q1"
    by auto
  show ?thesis
    apply (rule exI [of _ l'])
    apply (rule exI [of _ "companion\<lparr>part_left_id := Some (logical_id l)\<rparr>"])
    apply (rule exI [of _ operand])
    using 1 2 by simp
qed


lemma update_right_logical_references_effect:
  assumes "update_right_logical_references q = Inr q'" "parts q = ps @ [p]"
  shows "\<exists>p'. parts q' = ps @ [p'] \<and> part_id p' = part_id p \<and> part_name p' = part_name p
              \<and> part_operator p' = part_operator p \<and> part_right_id p' = part_right_id p"
    and "length (logicals q') = length (logicals q)"
    and "option_string q' = option_string q"
proof -
  show "\<exists>p'. parts q' = ps @ [p'] \<and> part_id p' = part_id p \<and> part_name p' = part_name p
              \<and> part_operator p' = part_operator p \<and> part_right_id p' = part_right_id p"
    and "length (logicals q') = length (logicals q)"
    and "option_string q' = option_string q"
  proof (atomize (full), cases "right_part q")
    case False
    then show "(\<exists>p'. parts q' = ps @ [p'] \<and> part_id p' = part_id p \<and> part_name p' = part_name p
              \<and> part_operator p' = part_operator p \<and> part_right_id p' = part_right_id p)
       \<and> length (logicals q') = length (logicals q) \<and> option_string q' = option_string q"
      using assms by (auto simp: update_right_logical_references_def)
  next
    case True
    then have run: "set_right_logical_references (q\<lparr>right_part := False\<rparr>) = Inr q'"
      using assms(1) by (simp add: update_right_logical_references_def)
    then have "logicals q \<noteq> []"
      by (auto simp: set_right_logical_references_def split: if_splits)
    then obtain ls l where ls: "logicals (q\<lparr>right_part := False\<rparr>) = ls @ [l]"
      by (cases "logicals q" rule: rev_cases) auto
    have ps: "parts (q\<lparr>right_part := False\<rparr>) = ps @ [p]" using assms(2) by simp
    from set_right_logical_references_effect [OF run ls ps] ls
    show "(\<exists>p'. parts q' = ps @ [p'] \<and> part_id p' = part_id p \<and> part_name p' = part_name p
              \<and> part_operator p' = part_operator p \<and> part_right_id p' = part_right_id p)
       \<and> length (logicals q') = length (logicals q) \<and> option_string q' = option_string q"
      by auto
  qed
qed

lemma interval_generator_installed:
  "generate_remaining_proprties (install_attributes draft proprty) = Some Generate_interval_values
   \<longleftrightarrow> filter_restriction proprty = Some ''interval''"
  by (simp add: install_attributes_def set_generator_for_restricted_proprty_def
      append_required_proprty_def)

text \<open>
  C6, as the claim states it, fails: the only property of \<open>Products\<close> is restricted to
  intervals, and the expression generated for it is the single comparison with \<open>eq\<close>, with
  no companion and no logical.
\<close>

theorem interval_comparison_without_companion:
  "filter_restriction (hd (es_proprties products_entity_set)) = Some ''interval''
   \<and> map_option comparisons
       (generated_option (generate 1 example_constants
          (filter_query_of products_entity_set (constant_draws 0))))
       = Some [(Some ''Price'', Some ''eq'')]
   \<and> map_option fo_logicals
       (generated_option (generate 1 example_constants
          (filter_query_of products_entity_set (constant_draws 0))))
       = Some []"
  by code_simp

text \<open>
  C6, amended. A comparison that \<open>_generate_proprty\<close> generates on a property with the
  interval generator installed (the property drawn, with the operator drawn for it) is
  followed by exactly one more part and one more logical when the operator is not \<open>eq\<close>:
  the new part compares the same property with \<open>ge\<close> if the operator was \<open>le\<close> and with
  \<open>le\<close> otherwise, and the new logical is \<open>and\<close>, with the comparison on its left and the
  companion on its right. When the operator is \<open>eq\<close>, no part and no logical is added.
\<close>

theorem interval_comparison_companion:
  assumes run: "generate_proprty c q = Inr q'"
    and drawn: "get_random_proprty (proprties q) (rnd q) = Inr (proprty, s, g)"
    and installed: "generate_remaining_proprties proprty = Some Generate_interval_values"
    and ops: "p_operators proprty = Some operators"
    and op: "weighted_random operators (fst (random g)) = Some operator"
  shows "(operator = ''eq'' \<longrightarrow>
            length (parts q') = length (parts q) \<and> length (logicals q') = length (logicals q)
            \<and> part_name (last (parts q')) = Some (p_name proprty)
            \<and> part_operator (last (parts q')) = Some ''eq'')
         \<and> (operator \<noteq> ''eq'' \<longrightarrow>
              (\<exists>ps main companion ls l.
                 parts q' = ps @ [main, companion] \<and> length ps + 1 = length (parts q)
                 \<and> logicals q' = ls @ [l] \<and> length ls = length (logicals q)
                 \<and> part_name main = Some (p_name proprty) \<and> part_operator main = Some operator
                 \<and> part_right_id main = Some (logical_id l)
                 \<and> part_name companion = Some (p_name proprty)
                 \<and> part_operator companion = Some (if operator = ''le'' then ''ge'' else ''le'')
                 \<and> part_left_id companion = Some (logical_id l)
                 \<and> logical_name l = Some ''and''
                 \<and> logical_left_id l = Some (part_id main)
                 \<and> logical_right_id l = Some (part_id companion)))"
proof -
  obtain r g1 where r: "random g = (r, g1)" by (cases "random g")
  from run drawn ops r obtain operand g2 where
    body: "(case (weighted_random operators r, operand) of
             (Some operator, Some operand') \<Rightarrow>
               bind_result
                 (update_proprty_part (p_name proprty) operator operand'
                    (case replaceable proprty of None \<Rightarrow> True | Some b \<Rightarrow> b)
                    (q\<lparr>proprties := s, rnd := g2,
                       option_string := option_string q @ p_name proprty @ '' '' @ operator
                                        @ '' '' @ operand'\<rparr>))
                 (\<lambda>q1. bind_result (update_right_logical_references q1)
                          (call_generate_remaining_proprties c proprty operator))
           | _ \<Rightarrow> Inl TypeError) = Inr q'"
    unfolding generate_proprty_def
    by (cases "call_generate c proprty g1") (auto simp: bind_result_def)
  have w: "weighted_random operators r = Some operator" using op r by simp
  from body w obtain operand' where
    body': "bind_result
                 (update_proprty_part (p_name proprty) operator operand'
                    (case replaceable proprty of None \<Rightarrow> True | Some b \<Rightarrow> b)
                    (q\<lparr>proprties := s, rnd := g2,
                       option_string := option_string q @ p_name proprty @ '' '' @ operator
                                        @ '' '' @ operand'\<rparr>))
                 (\<lambda>q1. bind_result (update_right_logical_references q1)
                          (call_generate_remaining_proprties c proprty operator)) = Inr q'"
    by (cases operand) auto
  then obtain q1 q2 where
    q1: "update_proprty_part (p_name proprty) operator operand'
           (case replaceable proprty of None \<Rightarrow> True | Some b \<Rightarrow> b)
           (q\<lparr>proprties := s, rnd := g2,
              option_string := option_string q @ p_name proprty @ '' '' @ operator
                               @ '' '' @ operand'\<rparr>) = Inr q1"
    and q2: "update_right_logical_references q1 = Inr q2"
    and q': "call_generate_remaining_proprties c proprty operator q2 = Inr q'"
    by (blast dest!: bind_result_Inr)
  have "parts q \<noteq> []" using q1 by (auto simp: update_proprty_part_def split: if_splits)
  then obtain ps p where ps: "parts q = ps @ [p]" by (cases "parts q" rule: rev_cases) auto
  then have ps0: "parts (q\<lparr>proprties := s, rnd := g2,
              option_string := option_string q @ p_name proprty @ '' '' @ operator
                               @ '' '' @ operand'\<rparr>) = ps @ [p]" by simp
  from update_proprty_part_effect [OF q1 ps0]
  have p1: "parts q1 = ps @ [p\<lparr>part_name := Some (p_name proprty), part_operator := Some operator,
                              part_operand := Some operand',
                              part_replaceable := Some (case replaceable proprty of None \<Rightarrow> True | Some b \<Rightarrow> b)\<rparr>]"
    and l1: "logicals q1 = logicals q"
    by simp_all
  from update_right_logical_references_effect [OF q2 p1]
  obtain main where main: "parts q2 = ps @ [main]" "part_name main = Some (p_name proprty)"
    "part_operator main = Some operator" and l2: "length (logicals q2) = length (logicals q)"
    using l1 by auto
  have iv: "generate_interval_values c proprty operator q2 = Inr q'"
    using q' installed by (simp add: call_generate_remaining_proprties_def)
  show ?thesis
  proof (cases "operator = ''eq''")
    case True
    then have "q' = q2" using iv by (simp add: generate_interval_values_def)
    then show ?thesis using True main l2 ps by simp
  next
    case False
    then have "generate_next_interval_value c proprty (if operator = ''le'' then ''ge'' else ''le'') q2
               = Inr q'"
      using iv by (simp add: generate_interval_values_def)
    from generate_next_interval_value_effect [OF this main(1)]
    obtain l companion where
      "logicals q' = logicals q2 @ [l]"
      "parts q' = ps @ [main\<lparr>part_right_id := Some (logical_id l)\<rparr>, companion]"
      "logical_name l = Some ''and''" "logical_left_id l = Some (part_id main)"
      "logical_right_id l = Some (part_id companion)"
      "part_name companion = Some (p_name proprty)"
      "part_operator companion = Some (if operator = ''le'' then ''ge'' else ''le'')"
      "part_left_id companion = Some (logical_id l)"
      by blast
    then have "parts q' = ps @ [main\<lparr>part_right_id := Some (logical_id l)\<rparr>, companion]
        \<and> length ps + 1 = length (parts q)
        \<and> logicals q' = logicals q2 @ [l] \<and> length (logicals q2) = length (logicals q)
        \<and> part_name (main\<lparr>part_right_id := Some (logical_id l)\<rparr>) = Some (p_name proprty)
        \<and> part_operator (main\<lparr>part_right_id := Some (logical_id l)\<rparr>) = Some operator
        \<and> part_right_id (main\<lparr>part_right_id := Some (logical_id l)\<rparr>) = Some (logical_id l)
        \<and> part_name companion = Some (p_name proprty)
        \<and> part_operator companion = Some (if operator = ''le'' then ''ge'' else ''le'')
        \<and> part_left_id companion = Some (logical_id l)
        \<and> logical_name l = Some ''and''
        \<and> logical_left_id l = Some (part_id (main\<lparr>part_right_id := Some (logical_id l)\<rparr>))
        \<and> logical_right_id l = Some (part_id companion)"
      using main l2 ps by simp
    then show ?thesis using False by blast
  qed
qed

theorem interval_comparison_companion_witness:
  "get_random_proprty (proprties (products_query_at_leaf (constant_draws (9 / 10))))
       (rnd (products_query_at_leaf (constant_draws (9 / 10))))
     = Inr (projr (get_random_proprty (proprties (products_query_at_leaf (constant_draws (9 / 10))))
                     (rnd (products_query_at_leaf (constant_draws (9 / 10))))))
   \<and> generate_proprty example_constants (products_query_at_leaf (constant_draws (9 / 10)))
     = Inr (projr (generate_proprty example_constants (products_query_at_leaf (constant_draws (9 / 10)))))
   \<and> (\<exists>ps main companion ls l.
         parts (projr (generate_proprty example_constants
                         (products_query_at_leaf (constant_draws (9 / 10))))) = ps @ [main, companion]
         \<and> logicals (projr (generate_proprty example_constants
                              (products_query_at_leaf (constant_draws (9 / 10))))) = ls @ [l]
         \<and> part_name main = Some ''Price'' \<and> part_operator main = Some ''le''
         \<and> part_name companion = Some ''Price'' \<and> part_operator companion = Some ''ge''
         \<and> logical_name l = Some ''and''
         \<and> logical_left_id l = Some (part_id main)
         \<and> logical_right_id l = Some (part_id companion))"
proof -
  define q where "q = products_query_at_leaf (constant_draws (9 / 10))"
  define d where "d = projr (get_random_proprty (proprties q) (rnd q))"
  have "\<not> isl (get_random_proprty (proprties q) (rnd q))" unfolding q_def by code_simp
  then have drawn: "get_random_proprty (proprties q) (rnd q) = Inr (fst d, fst (snd d), snd (snd d))"
    by (simp add: d_def)
  have "\<not> isl (generate_proprty example_constants q)" unfolding q_def by code_simp
  then have run: "generate_proprty example_constants q = Inr (projr (generate_proprty example_constants q))"
    by simp
  have installed: "generate_remaining_proprties (fst d) = Some Generate_interval_values"
    unfolding d_def q_def by code_simp
  have ops: "p_operators (fst d) = Some (EXPRESSION_OPERATORS example_constants)"
    unfolding d_def q_def by code_simp
  have op: "weighted_random (EXPRESSION_OPERATORS example_constants) (fst (random (snd (snd d))))
            = Some ''le''"
    unfolding d_def q_def by code_simp
  have name: "p_name (fst d) = ''Price''" unfolding d_def q_def by code_simp
  from interval_comparison_companion [OF run drawn installed ops op] name
  have "\<exists>ps main companion ls l.
         parts (projr (generate_proprty example_constants q)) = ps @ [main, companion]
         \<and> logicals (projr (generate_proprty example_constants q)) = ls @ [l]
         \<and> part_name main = Some ''Price'' \<and> part_operator main = Some ''le''
         \<and> part_name companion = Some ''Price'' \<and> part_operator companion = Some ''ge''
         \<and> logical_name l = Some ''and''
         \<and> logical_left_id l = Some (part_id main)
         \<and> logical_right_id l = Some (part_id companion)"
    by (simp, blast)
  then show ?thesis using run drawn unfolding q_def d_def by simp
qed

section \<open>Required properties in a generated expression\<close>

lemma nth_not_in_delete_at:
  assumes "distinct xs" "i < length xs"
  shows "xs ! i \<notin> set (delete_at xs i)"
proof -
  have "xs = take i xs @ xs ! i # drop (Suc i) xs" using assms(2) by (rule id_take_nth_drop)
  then have "distinct (take i xs @ xs ! i # drop (Suc i) xs)" using assms(1) by simp
  then show ?thesis by (auto simp: delete_at_def)
qed

lemma py_index_Inr: "py_index xs i = Inr j \<Longrightarrow> j < length xs"
  by (auto simp: py_index_def split: if_splits)

lemma update_remaining_proprties_required:
  "update_remaining_proprties s = Inr s' \<Longrightarrow> sel_required_proprties s' = sel_required_proprties s"
  by (auto simp: update_remaining_proprties_def split: if_splits list.splits proprties_group.splits)

text \<open>
  One draw from the required pool: the property drawn is removed from the pool, which is
  left one element shorter.
\<close>

lemma required_pool_draw_removes_proprty:
  assumes run: "get_random_proprty s g = Inr (proprty, s', g')"
    and pool: "weighted_random (sel_proprties s) (fst (random g))
               = Some (RequiredProprties Required_proprties)"
  shows "(\<exists>i<length (sel_required_proprties s).
            proprty = sel_required_proprties s ! i
            \<and> sel_required_proprties s' = delete_at (sel_required_proprties s) i)
         \<and> length (sel_required_proprties s') + 1 = length (sel_required_proprties s)
         \<and> (distinct (sel_required_proprties s) \<longrightarrow> proprty \<notin> set (sel_required_proprties s'))"
proof -
  obtain r g1 where r: "random g = (r, g1)" by (cases "random g")
  from run pool r obtain s1 where
    get: "get_proprty (RequiredProprties Required_proprties) s g1 = Inr (proprty, s1, g')"
    and upd: "update_remaining_proprties s1 = Inr s'"
    unfolding get_random_proprty_def
    by (auto simp: bind_result_def split: sum.splits)
  obtain r' g2 where r': "random g1 = (r', g2)" by (cases "random g1")
  from get r' obtain i where
    i: "py_index (sel_required_proprties s)
          (py_round (r' * of_int (int (length (sel_required_proprties s)) - 1))) = Inr i"
    and p: "proprty = sel_required_proprties s ! i"
    and s1: "sel_required_proprties s1 = delete_at (sel_required_proprties s) i"
    by (auto simp: group_proprties_def set_group_proprties_def Let_def split: sum.splits)
  have il: "i < length (sel_required_proprties s)" using i by (rule py_index_Inr)
  have s': "sel_required_proprties s' = delete_at (sel_required_proprties s) i"
    using update_remaining_proprties_required [OF upd] s1 by simp
  have "length (sel_required_proprties s') + 1 = length (sel_required_proprties s)"
    using il by (simp add: s' delete_at_def)
  moreover have "distinct (sel_required_proprties s) \<longrightarrow> proprty \<notin> set (sel_required_proprties s')"
    using nth_not_in_delete_at [OF _ il] by (simp add: p s')
  ultimately show ?thesis using il p s' by blast
qed

lemma map_update_last: "(\<And>x. g (f x) = g x) \<Longrightarrow> map g (update_last f xs) = map g xs"
  by (cases xs rule: rev_cases) (simp_all add: update_last_def)

lemma map_update_last_changed:
  "xs \<noteq> [] \<Longrightarrow> map g (update_last f xs) = butlast (map g xs) @ [g (f (last xs))]"
  by (cases xs rule: rev_cases) (simp_all add: update_last_def)

lemma update_last_Nil_iff [simp]: "update_last f xs = [] \<longleftrightarrow> xs = []"
  by (cases xs rule: rev_cases) (simp_all add: update_last_def)

lemma add_logical_view:
  "map part_name (parts (add_logical q)) = map part_name (parts q)"
  "proprties (add_logical q) = proprties q"
  by (simp_all add: add_logical_def getrandbits_def Let_def)

lemma add_part_view:
  "map part_name (parts (add_part q)) = map part_name (parts q) @ [None]"
  "proprties (add_part q) = proprties q"
  by (simp_all add: add_part_def getrandbits_def Let_def new_part_def)

lemma add_group_view:
  "map part_name (parts (add_group q)) = map part_name (parts q)"
  "proprties (add_group q) = proprties q"
  by (simp_all add: add_group_def getrandbits_def Let_def)

lemma next_random_view:
  "map part_name (parts (snd (next_random q))) = map part_name (parts q)"
  "proprties (snd (next_random q)) = proprties q"
  by (simp_all add: next_random_def random_def Let_def)

lemma update_left_logical_references_view:
  assumes "update_left_logical_references q = Inr q'"
  shows "map part_name (parts q') = map part_name (parts q)" "proprties q' = proprties q"
  using assms
  by (auto simp: update_left_logical_references_def Let_def map_update_last
      split: option.splits if_splits)

lemma set_right_logical_references_view:
  assumes "set_right_logical_references q = Inr q'"
  shows "map part_name (parts q') = map part_name (parts q)" "proprties q' = proprties q"
  using assms
  by (auto simp: set_right_logical_references_def Let_def map_update_last
      split: option.splits if_splits)

lemma update_right_logical_references_view:
  assumes "update_right_logical_references q = Inr q'"
  shows "map part_name (parts q') = map part_name (parts q)" "proprties q' = proprties q"
  using assms set_right_logical_references_view [of "q\<lparr>right_part := False\<rparr>" q']
  by (auto simp: update_right_logical_references_def split: if_splits)

lemma update_group_references_view:
  assumes "update_group_references q = Inr q'"
  shows "map part_name (parts q') = map part_name (parts q)" "proprties q' = proprties q"
  using assms
  by (auto simp: update_group_references_def Let_def split: option.splits if_splits)

lemma update_proprty_part_view:
  assumes "update_proprty_part n operator operand b q = Inr q'"
  shows "map part_name (parts q') = butlast (map part_name (parts q)) @ [Some n]"
    "proprties q' = proprties q"
  using assms
  by (auto simp: update_proprty_part_def map_update_last_changed split: if_splits)

lemma update_function_part_view:
  assumes "update_function_part gf operator operand q = Inr q'"
  shows "map part_name (parts q') = butlast (map part_name (parts q)) @ [Some (generated_string gf)]"
    "proprties q' = proprties q"
  using assms
  by (auto simp: update_function_part_def map_update_last_changed split: if_splits)

lemma generate_sap_restricted_view:
  assumes run: "generate_sap_restricted c proprty lg op q = Inr q'"
  shows "map part_name (parts q') = map part_name (parts q) @ [Some (p_name proprty)]"
    "proprties q' = proprties q"
proof -
  define q3 where "q3 = (add_logical (q\<lparr>option_string := option_string q @ '' '' @ lg @ '' ''\<rparr>))
      \<lparr>logicals := update_last (\<lambda>l. l\<lparr>logical_name := Some lg\<rparr>)
         (logicals (add_logical (q\<lparr>option_string := option_string q @ '' '' @ lg @ '' ''\<rparr>)))\<rparr>"
  have v3: "map part_name (parts q3) = map part_name (parts q)" "proprties q3 = proprties q"
    by (simp_all add: q3_def add_logical_view)
  from run obtain q4 where q4: "update_left_logical_references q3 = Inr q4"
    and rest: "bind_result (call_generate c proprty (rnd (add_part q4)))
       (\<lambda>(operand, g). case operand of None \<Rightarrow> Inl TypeError
          | Some operand' \<Rightarrow>
              update_proprty_part (p_name proprty) op operand'
                (case replaceable proprty of None \<Rightarrow> True | Some b \<Rightarrow> b)
                ((add_part q4)\<lparr>rnd := g,
                   option_string := option_string (add_part q4) @ p_name proprty @ '' '' @ op
                                    @ '' '' @ operand'\<rparr>)) = Inr q'"
    unfolding generate_sap_restricted_def Let_def q3_def [symmetric]
    by (cases "update_left_logical_references q3") (simp_all add: bind_result_def)
  have v4: "map part_name (parts q4) = map part_name (parts q)" "proprties q4 = proprties q"
    using update_left_logical_references_view [OF q4] v3 by simp_all
  from rest obtain operand g where
    upd: "update_proprty_part (p_name proprty) op operand
            (case replaceable proprty of None \<Rightarrow> True | Some b \<Rightarrow> b)
            ((add_part q4)\<lparr>rnd := g,
               option_string := option_string (add_part q4) @ p_name proprty @ '' '' @ op
                                @ '' '' @ operand\<rparr>) = Inr q'"
  proof -
    from rest obtain a b where ab: "call_generate c proprty (rnd (add_part q4)) = Inr (a, b)"
      and body: "(case a of None \<Rightarrow> Inl TypeError
          | Some operand' \<Rightarrow>
              update_proprty_part (p_name proprty) op operand'
                (case replaceable proprty of None \<Rightarrow> True | Some b \<Rightarrow> b)
                ((add_part q4)\<lparr>rnd := b,
                   option_string := option_string (add_part q4) @ p_name proprty @ '' '' @ op
                                    @ '' '' @ operand'\<rparr>)) = Inr q'"
      by (auto dest!: bind_result_Inr)
    show ?thesis
    proof (cases a)
      case None
      then show ?thesis using body by simp
    next
      case (Some operand')
      then show ?thesis using body that by simp
    qed
  qed
  from update_proprty_part_view [OF upd]
  show "map part_name (parts q') = map part_name (parts q) @ [Some (p_name proprty)]"
    "proprties q' = proprties q"
    by (simp_all add: add_part_view v4)
qed

lemma generate_multi_values_loop_view:
  assumes "generate_multi_values_loop n c proprty op q = Inr q'"
  shows "prefix (map part_name (parts q)) (map part_name (parts q')) \<and> proprties q' = proprties q"
  using assms
proof (induction n arbitrary: q)
  case 0
  then show ?case by simp
next
  case (Suc n)
  from Suc.prems obtain q1 q2 where 1: "generate_sap_restricted c proprty ''or'' op q = Inr q1"
    and 2: "set_right_logical_references q1 = Inr q2"
    and 3: "generate_multi_values_loop n c proprty op q2 = Inr q'"
    by (auto dest!: bind_result_Inr)
  have "map part_name (parts q2) = map part_name (parts q) @ [Some (p_name proprty)]"
    "proprties q2 = proprties q"
    using generate_sap_restricted_view [OF 1] set_right_logical_references_view [OF 2] by simp_all
  then show ?case using Suc.IH [OF 3] by (auto elim: prefix_order.trans [rotated])
qed

lemma call_generate_remaining_proprties_view:
  assumes "call_generate_remaining_proprties c proprty op q = Inr q'"
  shows "prefix (map part_name (parts q)) (map part_name (parts q')) \<and> proprties q' = proprties q"
proof (cases "generate_remaining_proprties proprty")
  case None
  then show ?thesis using assms by (simp add: call_generate_remaining_proprties_def)
next
  case (Some k)
  show ?thesis
  proof (cases k)
    case Generate_interval_values
    show ?thesis
    proof (cases "op = ''eq''")
      case True
      then show ?thesis
        using assms Some Generate_interval_values
        by (simp add: call_generate_remaining_proprties_def generate_interval_values_def)
    next
      case False
      then obtain q1 where 1: "generate_sap_restricted c proprty ''and''
            (if op = ''le'' then ''ge'' else ''le'') q = Inr q1"
        and 2: "set_right_logical_references q1 = Inr q'"
        using assms Some Generate_interval_values
        by (auto simp: call_generate_remaining_proprties_def generate_interval_values_def
            generate_next_interval_value_def dest!: bind_result_Inr)
      show ?thesis
        using generate_sap_restricted_view [OF 1] set_right_logical_references_view [OF 2]
        by simp
    qed
  next
    case Generate_multi_values
    then show ?thesis
      using assms Some generate_multi_values_loop_view
      by (auto simp: call_generate_remaining_proprties_def generate_multi_values_def Let_def
          split_def next_random_view
          dest!: generate_multi_values_loop_view)
  next
    case Lambda_x_y_None
    then show ?thesis using assms Some by (simp add: call_generate_remaining_proprties_def)
  qed
qed


lemma pool_accounted_refl: "pool_accounted q q"
  by (simp add: pool_accounted_def)

lemma pool_accounted_trans:
  assumes "pool_accounted q q1" "pool_accounted q1 q2"
  shows "pool_accounted q q2"
proof -
  have "set (map part_name (parts q1)) \<subseteq> set (map part_name (parts q2))"
    using assms(2) unfolding pool_accounted_def by (meson set_mono_prefix)
  then show ?thesis
    using assms unfolding pool_accounted_def
    by (meson prefix_order.trans subseq_order.order_trans subsetD)
qed

lemma pool_accounted_same_pool:
  assumes "prefix (map part_name (parts q)) (map part_name (parts q'))"
    and "sel_required_proprties (proprties q') = sel_required_proprties (proprties q)"
  shows "pool_accounted q q'"
  using assms by (simp add: pool_accounted_def)

lemma subseq_delete_at: "subseq (delete_at xs i) xs"
proof (induction xs arbitrary: i)
  case Nil
  then show ?case by (simp add: delete_at_def)
next
  case (Cons x xs)
  show ?case
  proof (cases i)
    case 0
    then show ?thesis by (simp add: delete_at_def list_emb_Cons)
  next
    case (Suc j)
    then show ?thesis using Cons [of j] by (simp add: delete_at_def)
  qed
qed

lemma set_delete_at: "i < length xs \<Longrightarrow> set xs \<subseteq> insert (xs ! i) (set (delete_at xs i))"
proof -
  assume "i < length xs"
  then have "xs = take i xs @ xs ! i # drop (Suc i) xs" by (rule id_take_nth_drop)
  then have "set xs = set (take i xs) \<union> insert (xs ! i) (set (drop (Suc i) xs))"
    by (metis set_append list.simps(15))
  then show ?thesis by (auto simp: delete_at_def)
qed

lemma py_index_Inr': "py_index xs i = Inr j \<Longrightarrow> j < length xs"
  by (auto simp: py_index_def split: if_splits)

lemma get_proprty_pool:
  assumes "get_proprty grp s g = Inr (proprty, s', g')"
  shows "subseq (sel_required_proprties s') (sel_required_proprties s)
         \<and> set (sel_required_proprties s) \<subseteq> insert proprty (set (sel_required_proprties s'))"
proof (cases grp)
  case (NonRequiredProprties l)
  then show ?thesis
    using assms
    by (cases l)
      (auto simp: group_proprties_def set_group_proprties_def split_def Let_def subseq_delete_at
        split: sum.splits if_splits dest!: py_index_Inr' set_delete_at)
next
  case (RequiredProprties l)
  then show ?thesis
    using assms
    by (cases l)
      (auto simp: group_proprties_def set_group_proprties_def split_def Let_def subseq_delete_at
        split: sum.splits if_splits dest!: py_index_Inr' set_delete_at)
qed

lemma update_remaining_proprties_pool:
  "update_remaining_proprties s = Inr s' \<Longrightarrow> sel_required_proprties s' = sel_required_proprties s"
  by (auto simp: update_remaining_proprties_def split: if_splits list.splits proprties_group.splits)

lemma get_random_proprty_pool:
  assumes "get_random_proprty s g = Inr (proprty, s', g')"
  shows "subseq (sel_required_proprties s') (sel_required_proprties s)
         \<and> set (sel_required_proprties s) \<subseteq> insert proprty (set (sel_required_proprties s'))"
proof -
  from assms obtain grp g1 s1 where
    get: "get_proprty grp s g1 = Inr (proprty, s1, g')"
    and upd: "update_remaining_proprties s1 = Inr s'"
    unfolding get_random_proprty_def
    by (auto simp: bind_result_def split_def Let_def split: sum.splits option.splits)
  show ?thesis
    using get_proprty_pool [OF get] update_remaining_proprties_pool [OF upd] by simp
qed


lemma generate_proprty_pool:
  assumes run: "generate_proprty c q = Inr q'" and names: "map part_name (parts q) = ns @ [x]"
  shows "prefix ns (map part_name (parts q'))
         \<and> subseq (sel_required_proprties (proprties q')) (sel_required_proprties (proprties q))
         \<and> (\<forall>p \<in> set (sel_required_proprties (proprties q)).
               p \<in> set (sel_required_proprties (proprties q'))
               \<or> Some (p_name p) \<in> set (map part_name (parts q')))"
proof -
  from run obtain proprty s g where
    drawn: "get_random_proprty (proprties q) (rnd q) = Inr (proprty, s, g)"
    and rest: "(case p_operators proprty of
       None \<Rightarrow> Inl AttributeError
     | Some operators \<Rightarrow>
         (let (r, g1) = random g
          in bind_result (call_generate c proprty g1) (\<lambda>(operand, g2).
             case (weighted_random operators r, operand) of
               (Some operator, Some operand') \<Rightarrow>
                 bind_result
                   (update_proprty_part (p_name proprty) operator operand'
                      (case replaceable proprty of None \<Rightarrow> True | Some b \<Rightarrow> b)
                      (q\<lparr>proprties := s, rnd := g2,
                         option_string := option_string q @ p_name proprty @ '' '' @ operator
                                          @ '' '' @ operand'\<rparr>))
                   (\<lambda>q1. bind_result (update_right_logical_references q1)
                            (call_generate_remaining_proprties c proprty operator))
             | _ \<Rightarrow> Inl TypeError))) = Inr q'"
    unfolding generate_proprty_def
    by (cases "get_random_proprty (proprties q) (rnd q)") (auto simp: bind_result_def)
  from rest obtain operator operand' g2 q1 q2 where
    q1: "update_proprty_part (p_name proprty) operator operand'
           (case replaceable proprty of None \<Rightarrow> True | Some b \<Rightarrow> b)
           (q\<lparr>proprties := s, rnd := g2,
              option_string := option_string q @ p_name proprty @ '' '' @ operator
                               @ '' '' @ operand'\<rparr>) = Inr q1"
    and q2: "update_right_logical_references q1 = Inr q2"
    and q': "call_generate_remaining_proprties c proprty operator q2 = Inr q'"
    by (auto simp: split_def Let_def bind_result_def
        split: option.splits sum.splits prod.splits)
  have v1: "map part_name (parts q1) = ns @ [Some (p_name proprty)]" "proprties q1 = s"
    using update_proprty_part_view [OF q1] names by simp_all
  have v2: "map part_name (parts q2) = ns @ [Some (p_name proprty)]" "proprties q2 = s"
    using update_right_logical_references_view [OF q2] v1 by simp_all
  have v': "prefix (ns @ [Some (p_name proprty)]) (map part_name (parts q'))" "proprties q' = s"
    using call_generate_remaining_proprties_view [OF q'] v2 by simp_all
  have in': "Some (p_name proprty) \<in> set (map part_name (parts q'))"
    using v'(1) by (meson set_mono_prefix subsetD in_set_conv_decomp)
  have pre: "prefix ns (map part_name (parts q'))"
    using v'(1) by (meson prefix_order.trans prefixI)
  from get_random_proprty_pool [OF drawn]
  have sub: "subseq (sel_required_proprties s) (sel_required_proprties (proprties q))"
    and cov: "set (sel_required_proprties (proprties q)) \<subseteq> insert proprty (set (sel_required_proprties s))"
    by simp_all
  show ?thesis
    using pre sub cov in' v'(2) by auto
qed

lemma generate_function_pool:
  assumes run: "generate_function c q = Inr q'" and names: "map part_name (parts q) = ns @ [x]"
  shows "prefix ns (map part_name (parts q')) \<and> proprties q' = proprties q"
proof -
  from run obtain gf operator operand g4 q1 where
    q1: "update_function_part gf operator operand
           (q\<lparr>rnd := g4,
              option_string := option_string q @ generated_string gf
                               @ '' '' @ operator @ '' '' @ operand\<rparr>) = Inr q1"
    and q': "update_right_logical_references q1 = Inr q'"
    unfolding generate_function_def
    by (auto simp: split_def Let_def bind_result_def
        split: option.splits sum.splits prod.splits)
  have "map part_name (parts q1) = ns @ [Some (generated_string gf)]" "proprties q1 = proprties q"
    using update_function_part_view [OF q1] names by simp_all
  then show ?thesis
    using update_right_logical_references_view [OF q'] by simp
qed

lemma generate_element_pool:
  assumes "generate_element c q = Inr q'"
  shows "pool_accounted q q'"
proof -
  define q1 where "q1 = snd (next_random (add_part q))"
  have names: "map part_name (parts q1) = map part_name (parts q) @ [None]"
    and pool: "proprties q1 = proprties q"
    by (simp_all add: q1_def next_random_view add_part_view)
  from assms have "generate_proprty c q1 = Inr q' \<or> generate_function c q1 = Inr q'"
    unfolding generate_element_def
    by (auto simp: split_def Let_def q1_def split: if_splits leaf_function.splits)
  then show ?thesis
  proof
    assume "generate_proprty c q1 = Inr q'"
    from generate_proprty_pool [OF this names] show ?thesis
      by (simp add: pool_accounted_def pool)
  next
    assume "generate_function c q1 = Inr q'"
    from generate_function_pool [OF this names] show ?thesis
      by (simp add: pool_accounted_def pool)
  qed
qed

lemma update_left_logical_references_view':
  "update_left_logical_references q = Inr q' \<Longrightarrow>
   map part_name (parts q') = map part_name (parts q) \<and> proprties q' = proprties q"
  using update_left_logical_references_view by blast

lemma noterm_logical_pool:
  assumes "noterm_logical c q = Inr q'"
  shows "pool_accounted q q'"
proof -
  have "map part_name (parts q') = map part_name (parts q) \<and> proprties q' = proprties q"
    using assms unfolding noterm_logical_def
    by (auto simp: split_def Let_def bind_result_def add_logical_view next_random_view
        split: option.splits sum.splits if_splits
        dest!: update_left_logical_references_view')
  then show ?thesis by (simp add: pool_accounted_def)
qed


lemma pool_accounted_left:
  assumes "pool_accounted q0 q'"
    and "map part_name (parts q0) = map part_name (parts q)"
    and "sel_required_proprties (proprties q0) = sel_required_proprties (proprties q)"
  shows "pool_accounted q q'"
  using assms by (simp add: pool_accounted_def)

lemma pool_accounted_right:
  assumes "pool_accounted q q0"
    and "map part_name (parts q') = map part_name (parts q0)"
    and "sel_required_proprties (proprties q') = sel_required_proprties (proprties q0)"
  shows "pool_accounted q q'"
  using assms by (simp add: pool_accounted_def)

lemma proprties_has_remaining_view:
  "map part_name (parts (snd (proprties_has_remaining q))) = map part_name (parts q)"
  "sel_required_proprties (proprties (snd (proprties_has_remaining q)))
     = sel_required_proprties (proprties q)"
  by (simp_all add: proprties_has_remaining_def has_remaining_def split_def Let_def)

lemma and_then_Some_Inr:
  "and_then m f = Some (Inr y) \<Longrightarrow> \<exists>x. m = Some (Inr x) \<and> f x = Some (Inr y)"
  by (auto simp: and_then_def split: option.splits sum.splits)

lemma grammar_pool:
  "(\<forall>q q'. noterm_expression n c q = Some (Inr q') \<longrightarrow> pool_accounted q q')
   \<and> (\<forall>q q'. noterm_parent n c q = Some (Inr q') \<longrightarrow> pool_accounted q q')
   \<and> (\<forall>q q'. generate_child n c q = Some (Inr q') \<longrightarrow> pool_accounted q q')
   \<and> (\<forall>q q'. generate_child_group n c q = Some (Inr q') \<longrightarrow> pool_accounted q q')
   \<and> (\<forall>q q'. noterm_child n c q = Some (Inr q') \<longrightarrow> pool_accounted q q')
   \<and> (\<forall>q q'. generate_rest n c q = Some (Inr q') \<longrightarrow> pool_accounted q q')"
proof (induction n)
  case 0
  then show ?case by simp
next
  case (Suc n)
  then have expr: "\<And>q q'. noterm_expression n c q = Some (Inr q') \<Longrightarrow> pool_accounted q q'"
    and parent: "\<And>q q'. noterm_parent n c q = Some (Inr q') \<Longrightarrow> pool_accounted q q'"
    and chld: "\<And>q q'. generate_child n c q = Some (Inr q') \<Longrightarrow> pool_accounted q q'"
    and grp: "\<And>q q'. generate_child_group n c q = Some (Inr q') \<Longrightarrow> pool_accounted q q'"
    and nchild: "\<And>q q'. noterm_child n c q = Some (Inr q') \<Longrightarrow> pool_accounted q q'"
    and rest: "\<And>q q'. generate_rest n c q = Some (Inr q') \<Longrightarrow> pool_accounted q q'"
    by blast+
  have 1: "pool_accounted q q'" if run: "noterm_expression (Suc n) c q = Some (Inr q')" for q q'
  proof -
    define q1 where "q1 = snd (proprties_has_remaining (q\<lparr>recursion_depth := recursion_depth q + 1\<rparr>))"
    define q2 where "q2 = snd (next_random q1)"
    have v1: "map part_name (parts q1) = map part_name (parts q)"
      "sel_required_proprties (proprties q1) = sel_required_proprties (proprties q)"
      by (simp_all add: q1_def proprties_has_remaining_view)
    have v2: "map part_name (parts q2) = map part_name (parts q)"
      "sel_required_proprties (proprties q2) = sel_required_proprties (proprties q)"
      by (simp_all add: q2_def next_random_view v1)
    from run have "noterm_child n c q1 = Some (Inr q') \<or> generate_element c q2 = Inr q'
        \<or> noterm_child n c q2 = Some (Inr q')"
      by (auto simp: split_def Let_def q1_def q2_def split: if_splits)
    then show ?thesis
      using nchild [of q1 q'] nchild [of q2 q'] generate_element_pool [of c q2 q']
        pool_accounted_left [OF _ v1] pool_accounted_left [OF _ v2]
      by blast
  qed
  have 2: "pool_accounted q q'" if run: "noterm_parent (Suc n) c q = Some (Inr q')" for q q'
  proof -
    define q1 where "q1 = snd (proprties_has_remaining q)"
    define q2 where "q2 = snd (next_random q1)"
    have v1: "map part_name (parts q1) = map part_name (parts q)"
      "sel_required_proprties (proprties q1) = sel_required_proprties (proprties q)"
      by (simp_all add: q1_def proprties_has_remaining_view)
    have v2: "map part_name (parts q2) = map part_name (parts q)"
      "sel_required_proprties (proprties q2) = sel_required_proprties (proprties q)"
      by (simp_all add: q2_def next_random_view v1)
    from run have "generate_child n c q1 = Some (Inr q') \<or> noterm_expression n c q2 = Some (Inr q')
        \<or> generate_child n c q2 = Some (Inr q')"
      by (auto simp: split_def Let_def q1_def q2_def split: if_splits)
    then show ?thesis
      using chld [of q1 q'] chld [of q2 q'] expr [of q2 q']
        pool_accounted_left [OF _ v1] pool_accounted_left [OF _ v2]
      by blast
  qed
  have 3: "pool_accounted q q'" if run: "generate_child (Suc n) c q = Some (Inr q')" for q q'
  proof -
    define q1 where "q1 = snd (next_random q)"
    define q2 where "q2 = snd (proprties_has_remaining q1)"
    have v1: "map part_name (parts q1) = map part_name (parts q)"
      "sel_required_proprties (proprties q1) = sel_required_proprties (proprties q)"
      by (simp_all add: q1_def next_random_view)
    have v2: "map part_name (parts q2) = map part_name (parts q)"
      "sel_required_proprties (proprties q2) = sel_required_proprties (proprties q)"
      by (simp_all add: q2_def proprties_has_remaining_view v1)
    from run have "noterm_child n c q1 = Some (Inr q') \<or> noterm_child n c q2 = Some (Inr q')
        \<or> generate_child_group n c q2 = Some (Inr q')"
      by (auto simp: split_def Let_def q1_def q2_def split: if_splits)
    then show ?thesis
      using nchild [of q1 q'] nchild [of q2 q'] grp [of q2 q']
        pool_accounted_left [OF _ v1] pool_accounted_left [OF _ v2]
      by blast
  qed
  have 4: "pool_accounted q q'" if run: "generate_child_group (Suc n) c q = Some (Inr q')" for q q'
  proof -
    define q1 where "q1 = add_group (q\<lparr>option_string := option_string q @ ''(''\<rparr>)"
    have v1: "map part_name (parts q1) = map part_name (parts q)"
      "sel_required_proprties (proprties q1) = sel_required_proprties (proprties q)"
      by (simp_all add: q1_def add_group_view)
    from run obtain q2 q3 where
      q2: "(if right_part q1 then update_group_references q1 else Inr q1) = Inr q2"
      and q3: "noterm_child n c (q2\<lparr>groups_stack := groups_stack q2 @ [length (groups q2) - 1]\<rparr>)
               = Some (Inr q3)"
      and q': "q' = q3\<lparr>finalizing_groups := finalizing_groups q3 + 1,
                         option_string := option_string q3 @ '')''\<rparr>"
      unfolding generate_child_group.simps Let_def q1_def [symmetric]
      by (auto dest!: and_then_Some_Inr)
    have v2: "map part_name (parts q2) = map part_name (parts q)"
      "sel_required_proprties (proprties q2) = sel_required_proprties (proprties q)"
      using q2 v1 update_group_references_view [of q1 q2] by (auto split: if_splits)
    have "pool_accounted (q2\<lparr>groups_stack := groups_stack q2 @ [length (groups q2) - 1]\<rparr>) q3"
      using nchild [OF q3] .
    then have "pool_accounted q q3"
      by (rule pool_accounted_left) (simp_all add: v2)
    then show ?thesis
      by (rule pool_accounted_right) (simp_all add: q')
  qed
  have 5: "pool_accounted q q'" if run: "noterm_child (Suc n) c q = Some (Inr q')" for q q'
  proof -
    from run obtain q1 where "noterm_parent n c q = Some (Inr q1)"
      "generate_rest n c q1 = Some (Inr q')"
      by (auto dest!: and_then_Some_Inr)
    then show ?thesis using parent rest pool_accounted_trans by blast
  qed
  have 6: "pool_accounted q q'" if run: "generate_rest (Suc n) c q = Some (Inr q')" for q q'
  proof (cases "has_filterable (proprties q)")
    case True
    with run obtain q1 where "noterm_logical c q = Inr q1" "noterm_parent n c q1 = Some (Inr q')"
      by (auto dest!: and_then_Some_Inr)
    then show ?thesis using parent noterm_logical_pool pool_accounted_trans by blast
  next
    case False
    then show ?thesis using run by (simp add: pool_accounted_refl)
  qed
  show ?case using 1 2 3 4 5 6 by blast
qed


lemma delete_redundancies_view:
  "parts (delete_redundancies (reverse_logicals q)) = parts q"
  "proprties (delete_redundancies (reverse_logicals q)) = proprties q"
  by (simp_all add: delete_redundancies_def reverse_logicals_def Let_def)

lemma generate_string_pool:
  assumes "generate_string fuel c q = Some (Inr q')" and "parts q = []"
  shows "pool_accounted q q'"
proof -
  define q1 where "q1 = snd (next_random q)"
  have v1: "map part_name (parts q1) = map part_name (parts q)"
    "sel_required_proprties (proprties q1) = sel_required_proprties (proprties q)"
    by (simp_all add: q1_def next_random_view)
  from assms(1) have "generate_proprty c (add_part q1) = Inr q'
      \<or> noterm_expression fuel c q1 = Some (Inr q') \<or> noterm_expression fuel c q = Some (Inr q')"
    by (auto simp: generate_string_def split_def Let_def q1_def split: if_splits)
  then show ?thesis
  proof (elim disjE)
    assume run: "generate_proprty c (add_part q1) = Inr q'"
    have "map part_name (parts (add_part q1)) = [] @ [None]"
      by (simp add: add_part_view v1 assms(2))
    from generate_proprty_pool [OF run this] show ?thesis
      by (simp add: pool_accounted_def add_part_view v1 assms(2))
  next
    assume "noterm_expression fuel c q1 = Some (Inr q')"
    then have "pool_accounted q1 q'" using grammar_pool by blast
    then show ?thesis by (rule pool_accounted_left) (simp_all add: v1)
  next
    assume "noterm_expression fuel c q = Some (Inr q')"
    then show ?thesis using grammar_pool by blast
  qed
qed

text \<open>
  C2, as the claim states it, fails. \<open>Id\<close> is the one required property of \<open>Items\<close>. In
  one generated expression both comparisons are on \<open>Id\<close>: it is drawn from the required
  pool and then again from the other pool, which holds all filterable properties. In
  another generated expression no comparison is on \<open>Id\<close>: both are drawn from the other
  pool, which has the weight 0.01 while required properties remain.
\<close>

theorem required_proprty_twice_or_missing:
  "map p_name (required_proprties (filter_query_of items_entity_set (constant_draws (1 / 4)))) = [''Id'']
   \<and> map_option comparisons
       (generated_option (generate 10 example_constants
          (filter_query_of items_entity_set (constant_draws (1 / 4)))))
       = Some [(Some ''Id'', Some ''eq''), (Some ''Id'', Some ''eq'')]
   \<and> map_option comparisons
       (generated_option (generate 10 example_constants
          (filter_query_of items_entity_set
             (listed_draws [1 / 4, 1 / 4, 1 / 4, 1 / 200, 3 / 4, 1 / 4, 1 / 4, 1 / 4, 1 / 4, 1 / 4,
                            1 / 200, 3 / 4, 1 / 4]))))
       = Some [(Some ''Qty'', Some ''eq''), (Some ''Qty'', Some ''eq'')]"
  by code_simp

text \<open>
  C2, amended. For every filter expression that \<open>generate\<close> returns, each required property
  has a comparison in the expression or is still in the required pool of the selector when
  the call returns; that pool is only ever reduced while the expression is generated (it
  ends as a subsequence of the required properties); so the expression has a comparison on
  each of the required properties whenever the pool ends empty.
\<close>

theorem required_proprties_placed_or_pooled:
  assumes "generate fuel c q = Some (Inr (fo, q'))"
  shows "subseq (sel_required_proprties (proprties q')) (required_proprties q)
         \<and> (\<forall>p \<in> set (required_proprties q).
               p \<in> set (sel_required_proprties (proprties q'))
               \<or> Some (p_name p) \<in> part_name ` set (fo_parts fo))
         \<and> (sel_required_proprties (proprties q') = [] \<longrightarrow>
              (\<forall>p \<in> set (required_proprties q). Some (p_name p) \<in> part_name ` set (fo_parts fo)))"
proof -
  from assms obtain q1 where
    run: "generate_string fuel c (init_variables q) = Some (Inr q1)"
    and fo: "fo_parts fo = parts (delete_redundancies (reverse_logicals q1))"
    and q': "q' = delete_redundancies (reverse_logicals q1)"
    unfolding generate_def by (auto simp: Let_def dest!: and_then_Some_Inr)
  have start: "parts (init_variables q) = []"
    "sel_required_proprties (proprties (init_variables q)) = required_proprties q"
    by (simp_all add: init_variables_def ProprtiesSelector_def)
  have "pool_accounted (init_variables q) q1"
    using generate_string_pool [OF run start(1)] .
  then have "subseq (sel_required_proprties (proprties q')) (required_proprties q)
         \<and> (\<forall>p \<in> set (required_proprties q).
               p \<in> set (sel_required_proprties (proprties q'))
               \<or> Some (p_name p) \<in> part_name ` set (fo_parts fo))"
    by (simp add: pool_accounted_def start fo q' delete_redundancies_view)
  then show ?thesis by auto
qed

theorem required_proprties_placed_or_pooled_witness:
  "triples_run = Some (Inr (the (generated_option triples_run), the (generated_query triples_run)))
   \<and> map p_name (required_proprties (filter_query_of triples_entity_set (constant_draws 0)))
       = [''A'', ''B'']
   \<and> comparisons (the (generated_option triples_run))
       = [(Some ''A'', Some ''eq''), (Some ''C'', Some ''eq''), (Some ''C'', Some ''eq'')]
   \<and> map p_name (sel_required_proprties (proprties (the (generated_query triples_run)))) = [''B'']
   \<and> subseq (sel_required_proprties (proprties (the (generated_query triples_run))))
         (required_proprties (filter_query_of triples_entity_set (constant_draws 0)))
   \<and> Some ''A'' \<in> part_name ` set (fo_parts (the (generated_option triples_run)))"
proof -
  have ne: "generated_option triples_run \<noteq> None" by code_simp
  have run: "triples_run
      = Some (Inr (the (generated_option triples_run), the (generated_query triples_run)))"
  proof (cases triples_run)
    case None
    show ?thesis using ne unfolding None by (simp add: generated_option_def)
  next
    case (Some x)
    show ?thesis
    proof (cases x)
      case (Inl e)
      show ?thesis using ne unfolding Some Inl by (simp add: generated_option_def)
    next
      case (Inr y)
      show ?thesis
        unfolding Some Inr by (cases y) (simp add: generated_option_def generated_query_def)
    qed
  qed
  have req: "required_proprties (filter_query_of triples_entity_set
               (listed_draws [1 / 4, 1 / 4, 1 / 4, 1 / 4, 1 / 4, 1 / 4, 1 / 4,
                         1 / 4, 1 / 4, 1 / 4, 1 / 4, 1 / 200, 3 / 4, 1 / 4,
                         1 / 4, 1 / 4, 1 / 4, 1 / 4, 1 / 200, 3 / 4, 1 / 4,
                         1 / 4, 1 / 4, 1 / 4, 1 / 4, 1 / 200, 3 / 4, 1 / 4]))
             = required_proprties (filter_query_of triples_entity_set (constant_draws 0))"
    by code_simp
  have names: "map p_name (required_proprties (filter_query_of triples_entity_set (constant_draws 0)))
       = [''A'', ''B'']"
    by code_simp
  have cmp: "comparisons (the (generated_option triples_run))
       = [(Some ''A'', Some ''eq''), (Some ''C'', Some ''eq''), (Some ''C'', Some ''eq'')]"
    by code_simp
  have pool: "map p_name (sel_required_proprties (proprties (the (generated_query triples_run))))
       = [''B'']"
    by code_simp
  from required_proprties_placed_or_pooled [OF run [unfolded triples_run_def]]
  have sub: "subseq (sel_required_proprties (proprties (the (generated_query triples_run))))
         (required_proprties (filter_query_of triples_entity_set (constant_draws 0)))"
    and cov: "\<forall>p \<in> set (required_proprties (filter_query_of triples_entity_set (constant_draws 0))).
         p \<in> set (sel_required_proprties (proprties (the (generated_query triples_run))))
         \<or> Some (p_name p) \<in> part_name ` set (fo_parts (the (generated_option triples_run)))"
    unfolding req triples_run_def [symmetric] by blast+
  from names obtain a where a: "a \<in> set (required_proprties
        (filter_query_of triples_entity_set (constant_draws 0)))" "p_name a = ''A''"
    by (cases "required_proprties (filter_query_of triples_entity_set (constant_draws 0))") auto
  have "a \<notin> set (sel_required_proprties (proprties (the (generated_query triples_run))))"
  proof
    assume "a \<in> set (sel_required_proprties (proprties (the (generated_query triples_run))))"
    then have "p_name a \<in> set (map p_name
        (sel_required_proprties (proprties (the (generated_query triples_run)))))"
      by simp
    then show False unfolding pool a(2) by simp
  qed
  then have "Some ''A'' \<in> part_name ` set (fo_parts (the (generated_option triples_run)))"
    using cov a by force
  then show ?thesis using run names cmp pool sub by blast
qed

lemma proprties_has_remaining_frame:
  "rnd (snd (proprties_has_remaining q)) = rnd q"
  "recursion_depth (snd (proprties_has_remaining q)) = recursion_depth q"
  "right_part (snd (proprties_has_remaining q)) = right_part q"
  by (simp_all add: proprties_has_remaining_def split_def Let_def)

lemma next_random_frame:
  "fst (next_random q) = random_results (rnd q) (random_calls (rnd q))"
  "random_results (rnd (snd (next_random q))) = random_results (rnd q)"
  "recursion_depth (snd (next_random q)) = recursion_depth q"
  "right_part (snd (next_random q)) = right_part q"
  by (simp_all add: next_random_def random_def Let_def)

lemma add_group_frame:
  "random_results (rnd (add_group q)) = random_results (rnd q)"
  "recursion_depth (add_group q) = recursion_depth q" "right_part (add_group q) = right_part q"
  by (simp_all add: add_group_def getrandbits_def Let_def)

lemma grammar_cycle_never_returns:
  assumes "\<forall>i. 1 / 2 \<le> random_results (rnd q) i"
    and "recursion_depth q \<le> RECURSION_LIMIT c" and "\<not> right_part q"
  shows "noterm_parent n c q = None \<and> generate_child n c q = None
         \<and> generate_child_group n c q = None \<and> noterm_child n c q = None"
  using assms
proof (induction n arbitrary: q)
  case 0
  then show ?case by simp
next
  case (Suc n)
  define inv where "inv q' \<longleftrightarrow> (\<forall>i. 1 / 2 \<le> random_results (rnd q') i)
      \<and> recursion_depth q' \<le> RECURSION_LIMIT c \<and> \<not> right_part q'" for q' :: filter_query
  have inv: "inv q" using Suc.prems by (simp add: inv_def)
  have IH: "noterm_parent n c q' = None \<and> generate_child n c q' = None
         \<and> generate_child_group n c q' = None \<and> noterm_child n c q' = None" if "inv q'" for q'
    using Suc.IH [of q'] that by (simp add: inv_def)
  have rem: "inv (snd (proprties_has_remaining q'))" if "inv q'" for q'
    using that by (simp add: inv_def proprties_has_remaining_frame)
  have nxt: "inv (snd (next_random q')) \<and> \<not> fst (next_random q') < 1 / 2" if "inv q'" for q'
    using that by (simp add: inv_def next_random_frame not_less)
  have limit: "\<not> RECURSION_LIMIT c < recursion_depth q'" if "inv q'" for q'
    using that by (simp add: inv_def)
  have parent: "noterm_parent (Suc n) c q = None"
    using IH [OF rem [OF inv]] nxt [OF rem [OF inv]] limit IH
    by (simp add: split_def Let_def)
  have child: "generate_child (Suc n) c q = None"
    using nxt [OF inv] rem IH by (simp add: split_def Let_def)
  have "inv (add_group (q\<lparr>option_string := option_string q @ ''(''\<rparr>))"
    using inv by (simp add: inv_def add_group_frame)
  moreover have "inv (q'\<lparr>groups_stack := st\<rparr>)" if "inv q'" for q' st
    using that by (simp add: inv_def)
  ultimately have grp: "generate_child_group (Suc n) c q = None"
    using IH by (simp add: Let_def and_then_def inv_def)
  have "noterm_child (Suc n) c q = None"
    using IH [OF inv] by (simp add: and_then_def)
  then show ?case using parent child grp by simp
qed

lemma generate_never_returns:
  assumes draws: "\<forall>i. 1 / 2 \<le> random_results (rnd q) i"
    and limit: "1 \<le> RECURSION_LIMIT c"
    and required: "required_proprties q \<noteq> []"
  shows "generate fuel c q = None"
proof -
  have "noterm_expression fuel c (init_variables q) = None"
  proof (cases fuel)
    case 0
    then show ?thesis by simp
  next
    case (Suc n)
    define q0 where "q0 = (init_variables q)\<lparr>recursion_depth := recursion_depth (init_variables q) + 1\<rparr>"
    have q0: "\<forall>i. 1 / 2 \<le> random_results (rnd q0) i" "recursion_depth q0 \<le> RECURSION_LIMIT c"
      "\<not> right_part q0"
      using draws limit by (simp_all add: q0_def init_variables_def)
    define q1 where "q1 = snd (proprties_has_remaining q0)"
    have q1: "\<forall>i. 1 / 2 \<le> random_results (rnd q1) i" "recursion_depth q1 \<le> RECURSION_LIMIT c"
      "\<not> right_part q1"
      using q0 by (simp_all add: q1_def proprties_has_remaining_frame)
    define q2 where "q2 = snd (next_random q1)"
    have q2: "\<forall>i. 1 / 2 \<le> random_results (rnd q2) i" "recursion_depth q2 \<le> RECURSION_LIMIT c"
      "\<not> right_part q2" "\<not> fst (next_random q1) < 1 / 2"
      using q1 by (simp_all add: q2_def next_random_frame not_less)
    show ?thesis
      using grammar_cycle_never_returns [OF q1(1,2,3), of n]
        grammar_cycle_never_returns [OF q2(1,2,3), of n] q2(2,4)
      by (simp add: Suc split_def Let_def q0_def [symmetric] q1_def [symmetric] q2_def [symmetric])
  qed
  moreover have "required_proprties (init_variables q) \<noteq> []"
    using required by (simp add: init_variables_def)
  ultimately show ?thesis
    by (simp add: generate_def generate_string_def and_then_def)
qed

lemma FilterQuery_rnd: "FilterQuery c es restr drafts cls g = Inr fq \<Longrightarrow> rnd fq = g"
  by (auto simp: FilterQuery_def bind_result_def Let_def split: sum.splits list.splits prod.splits)

text \<open>
  C1 fails on the code: the depth that the ceiling \<open>RECURSION_LIMIT\<close> is compared with
  grows only in \<open>_noterm_expression\<close>, and the calls from \<open>_noterm_parent\<close> to
  \<open>_generate_child\<close> to \<open>_noterm_child\<close> and back do not pass through it. For the entity
  set \<open>Items\<close> (one required property), a ceiling of 3 and a random source whose every
  draw is 0.5, the budget of forced continuations is spent after one call and the call of
  \<open>generate\<close> then never returns, whatever the fuel.
\<close>

theorem generation_never_returns_on_high_draws:
  "\<not> generate_returns example_constants (filter_query_of items_entity_set (constant_draws (1 / 2)))"
proof -
  have "\<not> isl (FilterQuery example_constants items_entity_set None [] loaded_classes
                  (example_rnd (constant_draws (1 / 2))))"
    by code_simp
  then have "FilterQuery example_constants items_entity_set None [] loaded_classes
               (example_rnd (constant_draws (1 / 2)))
             = Inr (filter_query_of items_entity_set (constant_draws (1 / 2)))"
    by (simp add: filter_query_of_def)
  then have "rnd (filter_query_of items_entity_set (constant_draws (1 / 2)))
             = example_rnd (constant_draws (1 / 2))"
    by (rule FilterQuery_rnd)
  then have draws: "\<forall>i. 1 / 2 \<le> random_results
      (rnd (filter_query_of items_entity_set (constant_draws (1 / 2)))) i"
    by (simp add: example_rnd_def constant_draws_def)
  have limit: "1 \<le> RECURSION_LIMIT example_constants" by (simp add: example_constants_def)
  have required: "required_proprties (filter_query_of items_entity_set (constant_draws (1 / 2))) \<noteq> []"
    by code_simp
  show ?thesis
    unfolding generate_returns_def
    using generate_never_returns [OF draws limit required] by simp
qed


end
